theory Spec2Isabelle
  imports
    Complex_Main
    "HOL-Library.Word"
    "HOL-Library.Finite_Map"
    "HOL-Library.Product_Lexorder"
    "HOL-Library.List_Lexorder"
begin

section \<open>The committee module: x/committee/keeper/proposal.go\<close>

subsection \<open>Values of the surrounding SDK\<close>

text \<open>
  \<^verbatim>\<open>sdk.AccAddress\<close> is a byte slice. \<^verbatim>\<open>time.Time\<close> and \<^verbatim>\<open>time.Duration\<close> are
  instants and spans on one integer time line. \<^verbatim>\<open>sdk.Dec\<close> is a fixed-point decimal: a
  big integer holding the value times \<open>10^18\<close>.
\<close>

type_synonym AccAddress = "8 word list"
type_synonym Time = int
type_synonym Duration = int
type_synonym Dec = int

definition Precision :: nat where
  "Precision = 18"

definition NewDec :: "int \<Rightarrow> Dec" where
  "NewDec i = i * 10 ^ Precision"

definition GTE :: "Dec \<Rightarrow> Dec \<Rightarrow> bool" where
  "GTE d d2 = (d \<ge> d2)"

text \<open>The rational number a \<^verbatim>\<open>sdk.Dec\<close> stands for.\<close>

definition dec_value :: "Dec \<Rightarrow> rat" where
  "dec_value d = of_int d / of_int (10 ^ Precision)"

datatype sdk_error =
    ErrUnknownCommittee string "64 word"
  | ErrUnknownProposal string "64 word"
  | ErrUnauthorized string
  | ErrProposalExpired string Time Time
  | ErrInvalidPubProposal string string
  | ErrNoProposalHandlerExists string string
  | ErrOther string

text \<open>
  What a Go call can do besides returning: panic. \<open>PanicValue\<close> is a value some
  collaborator panicked with (as \<^verbatim>\<open>%s\<close> prints it) and \<open>PanicNil\<close> the panic of
  \<^verbatim>\<open>panic(nil)\<close>; the other constructors are the panics of this package and of
  \<^verbatim>\<open>sdk.Dec\<close>.
\<close>

datatype panic_value =
    PanicValue string
  | PanicNil
  | UnexpectedHandlerError sdk_error
  | NilPubProposal
  | RouteDoesNotExist string
  | IntOverflow

datatype 'a outcome = Return 'a | Panic panic_value

text \<open>
  \<^verbatim>\<open>Dec.MulInt64\<close> multiplies the underlying integer and panics when the product needs
  more than \<open>255 + 60\<close> bits.
\<close>

definition MulInt64 :: "Dec \<Rightarrow> int \<Rightarrow> Dec outcome" where
  "MulInt64 d i = (let mul = d * i in
     if \<bar>mul\<bar> \<ge> 2 ^ (255 + 60) then Panic IntOverflow else Return mul)"

text \<open>\<^verbatim>\<open>fmt.Sprintf("%d", n)\<close> for an unsigned number.\<close>

function fmt_d_nat :: "nat \<Rightarrow> string" where
  "fmt_d_nat n =
     (if n < 10 then [''0123456789'' ! n]
      else fmt_d_nat (n div 10) @ [''0123456789'' ! (n mod 10)])"
  by pat_completeness auto
termination
  by (relation "measure id") auto

declare fmt_d_nat.simps [simp del]

definition fmt_d :: "64 word \<Rightarrow> string" where
  "fmt_d w = fmt_d_nat (unat w)"

text \<open>
  The event types, attribute keys and the timeout status are string constants of
  x/committee/types whose values are not among the sources: they are kept as names.
\<close>

datatype event_type =
  EventTypeProposalSubmit | EventTypeProposalVote | EventTypeProposalClose

datatype attribute_key =
  AttributeKeyCommitteeID | AttributeKeyProposalID | AttributeKeyProposalCloseStatus

datatype attribute_value = Text string | AttributeValueProposalTimeout

datatype Event = NewEvent event_type "(attribute_key \<times> attribute_value) list"

subsection \<open>The types of x/committee/types\<close>

text \<open>
  Modelled from the spec: \<^verbatim>\<open>types.PubProposal\<close>, an interface whose declaration is not
  among the sources: "any value exposing RouteKey and ValidateBasic() -> ok|error". The
  interface value may be nil, so the functions below take a \<open>PubProposal option\<close>.
\<close>

record PubProposal =
  ProposalRoute :: string
  ValidateBasic :: "sdk_error option"
  Payload :: string

text \<open>
  Modelled from the spec: a permission is a predicate over the proposed change ("does this
  capability authorize this specific proposed change").
\<close>

type_synonym Permission = "PubProposal option \<Rightarrow> bool"

record Committee =
  ID :: "64 word"
  Members :: "AccAddress list"
  Permissions :: "Permission list"
  VoteThreshold :: Dec
  ProposalDuration :: Duration

record Proposal =
  PubProposal :: "PubProposal option"
  ID :: "64 word"
  CommitteeID :: "64 word"
  Deadline :: Time

record Vote =
  ProposalID :: "64 word"
  Voter :: AccAddress

text \<open>Modelled from the spec: \<^verbatim>\<open>Committee.HasMember\<close>, membership of the address.\<close>

definition HasMember :: "Committee \<Rightarrow> AccAddress \<Rightarrow> bool" where
  "HasMember com addr = (addr \<in> set (Members com))"

text \<open>
  Modelled from the spec: \<^verbatim>\<open>Committee.HasPermissionsFor\<close>, "true iff at least one
  permission in the set authorizes the proposal".
\<close>

definition HasPermissionsFor :: "Committee \<Rightarrow> PubProposal option \<Rightarrow> bool" where
  "HasPermissionsFor com pubProposal = list_ex (\<lambda>p. p pubProposal) (Permissions com)"

text \<open>Modelled from the spec: \<^verbatim>\<open>Proposal.HasExpiredBy\<close>, "deadline \<open>\<le>\<close> now".\<close>

definition HasExpiredBy :: "Proposal \<Rightarrow> Time \<Rightarrow> bool" where
  "HasExpiredBy pr t = (Deadline pr \<le> t)"

subsection \<open>The store and the context\<close>

text \<open>
  The key/value store, one finite map per keyspace, and the counter of proposal ids.
  A vote is stored under the key made of its proposal id and its voter, a proposal under
  its id. Iteration is in key order.
\<close>

record Store =
  committeeStore :: "(64 word, Committee) fmap"
  proposalStore :: "(64 word, Proposal) fmap"
  voteStore :: "(64 word \<times> AccAddress, Vote) fmap"
  nextProposalID :: "64 word"

record Context =
  MultiStore :: Store
  BlockTime :: Time
  EventManager :: "Event list"

text \<open>
  \<^verbatim>\<open>ctx.CacheContext()\<close> of the SDK: a context on a branch of the store, whose writes
  reach the parent only through the returned write function, and with a new, empty event
  manager (\<^verbatim>\<open>c.WithMultiStore(cms).WithEventManager(NewEventManager())\<close>). The branch is a
  copy here; the block time is that of the parent.
\<close>

definition CacheContext :: "Context \<Rightarrow> Context" where
  "CacheContext ctx = ctx\<lparr>EventManager := []\<rparr>"

definition EmitEvent :: "Context \<Rightarrow> Event \<Rightarrow> Context" where
  "EmitEvent ctx e = ctx\<lparr>EventManager := EventManager ctx @ [e]\<rparr>"

text \<open>
  A store iterator hands the records to a callback until the callback asks to stop.
  The callback is a Go closure: \<open>'s\<close> is what it reads and writes.
\<close>

fun iterate :: "('a \<Rightarrow> 's \<Rightarrow> bool \<times> 's) \<Rightarrow> 'a list \<Rightarrow> 's \<Rightarrow> 's" where
  "iterate cb [] s = s"
| "iterate cb (x # xs) s =
     (case cb x s of (stop, s') \<Rightarrow> if stop then s' else iterate cb xs s')"

subsection \<open>The keeper's store functions (keeper.go)\<close>

text \<open>Modelled from the spec: \<^verbatim>\<open>GetCommittee(id) -> (Committee, found)\<close>.\<close>

definition GetCommittee :: "Context \<Rightarrow> 64 word \<Rightarrow> Committee option" where
  "GetCommittee ctx committeeID = fmlookup (committeeStore (MultiStore ctx)) committeeID"

text \<open>Modelled from the spec: \<^verbatim>\<open>GetProposal(id) -> (Proposal, found)\<close>.\<close>

definition GetProposal :: "Context \<Rightarrow> 64 word \<Rightarrow> Proposal option" where
  "GetProposal ctx proposalID = fmlookup (proposalStore (MultiStore ctx)) proposalID"

text \<open>
  Modelled from the spec: the proposal store "persists" a proposal, keyed by its id.
\<close>

definition SetProposal :: "Context \<Rightarrow> Proposal \<Rightarrow> Context" where
  "SetProposal ctx pr =
     ctx\<lparr>MultiStore := (MultiStore ctx)
       \<lparr>proposalStore := fmupd (Proposal.ID pr) pr (proposalStore (MultiStore ctx))\<rparr>\<rparr>"

text \<open>Modelled from the spec: \<^verbatim>\<open>DeleteProposal(id)\<close>.\<close>

definition DeleteProposal :: "Context \<Rightarrow> 64 word \<Rightarrow> Context" where
  "DeleteProposal ctx proposalID =
     ctx\<lparr>MultiStore := (MultiStore ctx)
       \<lparr>proposalStore := fmdrop proposalID (proposalStore (MultiStore ctx))\<rparr>\<rparr>"

text \<open>
  Modelled from the spec: \<^verbatim>\<open>StoreNewProposal\<close>, which "allocates the next sequential ID
  (monotonic counter, persisted), builds the Proposal, persists it, persists the advanced
  counter". The spec names no failure; the result keeps the error of the Go signature,
  which \<^verbatim>\<open>SubmitProposal\<close> tests. The counter is a uint64.
\<close>

definition StoreNewProposal ::
  "Context \<Rightarrow> PubProposal option \<Rightarrow> 64 word \<Rightarrow> Time \<Rightarrow> (sdk_error + 64 word) \<times> Context" where
  "StoreNewProposal ctx pubProposal committeeID deadline =
     (let newProposalID = nextProposalID (MultiStore ctx);
          proposal = \<lparr>PubProposal = pubProposal, ID = newProposalID,
                      CommitteeID = committeeID, Deadline = deadline\<rparr>;
          ctx1 = SetProposal ctx proposal;
          ctx2 = ctx1\<lparr>MultiStore := (MultiStore ctx1)\<lparr>nextProposalID := newProposalID + 1\<rparr>\<rparr>
      in (Inr newProposalID, ctx2))"

text \<open>
  Modelled from the spec: \<^verbatim>\<open>SetVote(vote)\<close> "upserts by (ProposalID, Voter) key;
  unconditional overwrite".
\<close>

definition SetVote :: "Context \<Rightarrow> Vote \<Rightarrow> Context" where
  "SetVote ctx vote =
     ctx\<lparr>MultiStore := (MultiStore ctx)
       \<lparr>voteStore := fmupd (ProposalID vote, Voter vote) vote (voteStore (MultiStore ctx))\<rparr>\<rparr>"

text \<open>Modelled from the spec: \<^verbatim>\<open>DeleteVote(proposalID, voter)\<close>.\<close>

definition DeleteVote :: "Context \<Rightarrow> 64 word \<Rightarrow> AccAddress \<Rightarrow> Context" where
  "DeleteVote ctx proposalID voter =
     ctx\<lparr>MultiStore := (MultiStore ctx)
       \<lparr>voteStore := fmdrop (proposalID, voter) (voteStore (MultiStore ctx))\<rparr>\<rparr>"

text \<open>
  The key a vote is stored under. In a store the keeper has written, every record sits
  under the key made from it: \<^verbatim>\<open>SetProposal\<close> and \<^verbatim>\<open>SetVote\<close> compute the key from
  the record.
\<close>

definition vote_key :: "Vote \<Rightarrow> 64 word \<times> AccAddress" where
  "vote_key vote = (ProposalID vote, Voter vote)"

definition wf_store :: "Store \<Rightarrow> bool" where
  "wf_store st =
     (fmpred (\<lambda>key pr. Proposal.ID pr = key) (proposalStore st) \<and>
      fmpred (\<lambda>key vote. vote_key vote = key) (voteStore st))"

text \<open>The records of a keyspace in key order, as an iterator opened now would yield them.\<close>

definition stored_proposals :: "Context \<Rightarrow> Proposal list" where
  "stored_proposals ctx =
     List.map_filter (fmlookup (proposalStore (MultiStore ctx)))
       (sorted_list_of_fset (fmdom (proposalStore (MultiStore ctx))))"

definition stored_votes :: "Context \<Rightarrow> 64 word \<Rightarrow> Vote list" where
  "stored_votes ctx proposalID =
     List.map_filter (fmlookup (voteStore (MultiStore ctx)))
       (filter (\<lambda>key. fst key = proposalID)
          (sorted_list_of_fset (fmdom (voteStore (MultiStore ctx)))))"

text \<open>
  Modelled from the spec: \<^verbatim>\<open>IterateProposals(visit)\<close>, "a lazy sequence of all stored
  proposals in an iteration order guaranteed stable for a given store state (ordinarily
  key order); visitor can request early stop", with "iteration snapshot semantics": the
  sequence is that of the store when the iteration starts.
\<close>

definition IterateProposals ::
  "Context \<Rightarrow> (Proposal \<Rightarrow> 's \<Rightarrow> bool \<times> 's) \<Rightarrow> 's \<Rightarrow> 's" where
  "IterateProposals ctx cb s = iterate cb (stored_proposals ctx) s"

text \<open>
  Modelled from the spec: \<^verbatim>\<open>IterateVotes(proposalID, visit)\<close>, "lazy sequence of votes
  for one proposal".
\<close>

definition IterateVotes ::
  "Context \<Rightarrow> 64 word \<Rightarrow> (Vote \<Rightarrow> 's \<Rightarrow> bool \<times> 's) \<Rightarrow> 's \<Rightarrow> 's" where
  "IterateVotes ctx proposalID cb s = iterate cb (stored_votes ctx proposalID) s"

subsection \<open>The keeper and the handlers\<close>

text \<open>
  A proposal handler is a Go function of the context and the content. It returns an
  error or nil, or panics; it may have written to the store of its context before.
  \<open>HPanic (Some r)\<close> is a panic with a value, \<open>r\<close> what \<^verbatim>\<open>%s\<close> prints of it;
  \<open>HPanic None\<close> is \<^verbatim>\<open>panic(nil)\<close>, which a handler reaches by \<^verbatim>\<open>panic(err)\<close> on a nil
  \<^verbatim>\<open>err\<close>.
\<close>

datatype handler_result = HReturn "sdk_error option" | HPanic "string option"

type_synonym Handler = "Context \<Rightarrow> PubProposal \<Rightarrow> handler_result \<times> Context"

record Keeper =
  codespace :: string
  router :: "string \<rightharpoonup> Handler"

text \<open>Modelled from the spec: the router's \<^verbatim>\<open>HasRoute(routeKey) -> bool\<close>.\<close>

definition HasRoute :: "Keeper \<Rightarrow> string \<Rightarrow> bool" where
  "HasRoute k r = (router k r \<noteq> None)"


subsection \<open>proposal.go\<close>

text \<open>
  The deferred function of \<^verbatim>\<open>ValidatePubProposal\<close>,
  \<^verbatim>\<open>if r := recover(); r != nil { returnErr = ErrInvalidPubProposal(...) }\<close>.
  After a panic with a value \<open>r\<close>, \<^verbatim>\<open>recover()\<close> yields \<open>r\<close> and the named result
  becomes the error. After \<^verbatim>\<open>panic(nil)\<close>, \<^verbatim>\<open>recover()\<close> stops the panic and yields nil
  (the Go of this code, with \<^verbatim>\<open>sdk.Error\<close>, is older than Go 1.21, which made the
  value a runtime error): the test fails and the named result stays what it was, nil.
  When the handler returned, \<^verbatim>\<open>recover()\<close> yields nil and the result is the one
  returned.
\<close>

fun deferred_recover :: "string \<Rightarrow> handler_result \<Rightarrow> sdk_error option outcome" where
  "deferred_recover cs (HPanic (Some r)) =
     Return (Some (ErrInvalidPubProposal cs (''proposal handler panicked: '' @ r)))"
| "deferred_recover cs (HPanic None) = Return None"
| "deferred_recover cs (HReturn err) = Return err"

text \<open>
  \<^verbatim>\<open>ValidatePubProposal\<close>. The handler runs on \<open>cacheCtx\<close>; the write function of the
  cache is dropped (\<^verbatim>\<open>cacheCtx, _ := ctx.CacheContext()\<close>), so the context after the call
  is \<open>ctx\<close>. \<^verbatim>\<open>GetRoute\<close> panics on a route that does not exist.
\<close>

definition ValidatePubProposal ::
  "Keeper \<Rightarrow> Context \<Rightarrow> PubProposal option \<Rightarrow> sdk_error option outcome \<times> Context" where
  "ValidatePubProposal k ctx pubProposal =
     (case pubProposal of
        None \<Rightarrow>
          (Return (Some (ErrInvalidPubProposal (codespace k) ''pub proposal cannot be nil'')), ctx)
      | Some pp \<Rightarrow>
          (case ValidateBasic pp of
             Some err \<Rightarrow> (Return (Some err), ctx)
           | None \<Rightarrow>
               if \<not> HasRoute k (ProposalRoute pp)
               then (Return (Some (ErrNoProposalHandlerExists (codespace k) (ProposalRoute pp))), ctx)
               else
                 (let cacheCtx = CacheContext ctx in
                  case router k (ProposalRoute pp) of
                    None \<Rightarrow> (Panic (RouteDoesNotExist (ProposalRoute pp)), ctx)
                  | Some handler \<Rightarrow>
                      (deferred_recover (codespace k) (fst (handler cacheCtx pp)), ctx))))"

definition SubmitProposal ::
  "Keeper \<Rightarrow> Context \<Rightarrow> AccAddress \<Rightarrow> 64 word \<Rightarrow> PubProposal option
     \<Rightarrow> (sdk_error + 64 word) outcome \<times> Context" where
  "SubmitProposal k ctx proposer committeeID pubProposal =
     (case GetCommittee ctx committeeID of
        None \<Rightarrow> (Return (Inl (ErrUnknownCommittee (codespace k) committeeID)), ctx)
      | Some com \<Rightarrow>
          if \<not> HasMember com proposer
          then (Return (Inl (ErrUnauthorized ''proposer not member of committee'')), ctx)
          else if \<not> HasPermissionsFor com pubProposal
          then (Return (Inl (ErrUnauthorized
                  ''committee does not have permissions to enact proposal'')), ctx)
          else
            (case ValidatePubProposal k ctx pubProposal of
               (Panic pv, ctx1) \<Rightarrow> (Panic pv, ctx1)
             | (Return (Some err), ctx1) \<Rightarrow> (Return (Inl err), ctx1)
             | (Return None, ctx1) \<Rightarrow>
                 (let deadline = BlockTime ctx1 + ProposalDuration com in
                  case StoreNewProposal ctx1 pubProposal committeeID deadline of
                    (Inl err, ctx2) \<Rightarrow> (Return (Inl err), ctx2)
                  | (Inr proposalID, ctx2) \<Rightarrow>
                      (Return (Inr proposalID),
                       EmitEvent ctx2 (NewEvent EventTypeProposalSubmit
                         [(AttributeKeyCommitteeID, Text (fmt_d (Committee.ID com))),
                          (AttributeKeyProposalID, Text (fmt_d proposalID))])))))"

definition AddVote ::
  "Keeper \<Rightarrow> Context \<Rightarrow> 64 word \<Rightarrow> AccAddress \<Rightarrow> sdk_error option \<times> Context" where
  "AddVote k ctx proposalID voter =
     (case GetProposal ctx proposalID of
        None \<Rightarrow> (Some (ErrUnknownProposal (codespace k) proposalID), ctx)
      | Some pr \<Rightarrow>
          if HasExpiredBy pr (BlockTime ctx)
          then (Some (ErrProposalExpired (codespace k) (BlockTime ctx) (Deadline pr)), ctx)
          else
            (case GetCommittee ctx (CommitteeID pr) of
               None \<Rightarrow> (Some (ErrUnknownCommittee (codespace k) (CommitteeID pr)), ctx)
             | Some com \<Rightarrow>
                 if \<not> HasMember com voter
                 then (Some (ErrUnauthorized ''voter must be a member of committee''), ctx)
                 else
                   (None,
                    EmitEvent (SetVote ctx \<lparr>ProposalID = proposalID, Voter = voter\<rparr>)
                      (NewEvent EventTypeProposalVote
                         [(AttributeKeyCommitteeID, Text (fmt_d (Committee.ID com))),
                          (AttributeKeyProposalID, Text (fmt_d (Proposal.ID pr)))]))))"

text \<open>The callback of \<^verbatim>\<open>TallyVotes\<close> and \<^verbatim>\<open>DeleteProposalAndVotes\<close>: append, go on.\<close>

definition collect_vote :: "Vote \<Rightarrow> Vote list \<Rightarrow> bool \<times> Vote list" where
  "collect_vote vote votes = (False, votes @ [vote])"

text \<open>
  \<^verbatim>\<open>int64(len(votes))\<close> and \<^verbatim>\<open>int64(len(com.Members))\<close>: the length of a slice, which
  an int64 holds.
\<close>

definition TallyVotes :: "Context \<Rightarrow> 64 word \<Rightarrow> int" where
  "TallyVotes ctx proposalID =
     (let votes = IterateVotes ctx proposalID collect_vote [] in int (length votes))"

definition GetProposalResult ::
  "Keeper \<Rightarrow> Context \<Rightarrow> 64 word \<Rightarrow> (sdk_error + bool) outcome" where
  "GetProposalResult k ctx proposalID =
     (case GetProposal ctx proposalID of
        None \<Rightarrow> Return (Inl (ErrUnknownProposal (codespace k) proposalID))
      | Some pr \<Rightarrow>
          (case GetCommittee ctx (CommitteeID pr) of
             None \<Rightarrow> Return (Inl (ErrUnknownCommittee (codespace k) (CommitteeID pr)))
           | Some com \<Rightarrow>
               (let numVotes = TallyVotes ctx proposalID in
                case MulInt64 (VoteThreshold com) (int (length (Members com))) of
                  Panic pv \<Rightarrow> Panic pv
                | Return quorum \<Rightarrow> Return (Inr (GTE (NewDec numVotes) quorum)))))"

definition EnactProposal ::
  "Keeper \<Rightarrow> Context \<Rightarrow> 64 word \<Rightarrow> sdk_error option outcome \<times> Context" where
  "EnactProposal k ctx proposalID =
     (case GetProposal ctx proposalID of
        None \<Rightarrow> (Return (Some (ErrUnknownProposal (codespace k) proposalID)), ctx)
      | Some pr \<Rightarrow>
          (case ValidatePubProposal k ctx (PubProposal pr) of
             (Panic pv, ctx1) \<Rightarrow> (Panic pv, ctx1)
           | (Return (Some err), ctx1) \<Rightarrow> (Return (Some err), ctx1)
           | (Return None, ctx1) \<Rightarrow>
               (case PubProposal pr of
                  None \<Rightarrow> (Panic NilPubProposal, ctx1)
                | Some pp \<Rightarrow>
                    (case router k (ProposalRoute pp) of
                       None \<Rightarrow> (Panic (RouteDoesNotExist (ProposalRoute pp)), ctx1)
                     | Some handler \<Rightarrow>
                         (case handler ctx1 pp of
                            (HReturn (Some err), ctx2) \<Rightarrow> (Panic (UnexpectedHandlerError err), ctx2)
                          | (HReturn None, ctx2) \<Rightarrow> (Return None, ctx2)
                          | (HPanic (Some r), ctx2) \<Rightarrow> (Panic (PanicValue r), ctx2)
                          | (HPanic None, ctx2) \<Rightarrow> (Panic PanicNil, ctx2))))))"

definition DeleteProposalAndVotes :: "Context \<Rightarrow> 64 word \<Rightarrow> Context" where
  "DeleteProposalAndVotes ctx proposalID =
     (let votes = IterateVotes ctx proposalID collect_vote [];
          ctx1 = DeleteProposal ctx proposalID
      in foldl (\<lambda>c v. DeleteVote c (ProposalID v) (Voter v)) ctx1 votes)"

text \<open>
  The store after each statement of \<^verbatim>\<open>DeleteProposalAndVotes\<close> that writes: the store
  it starts from, the one after \<^verbatim>\<open>DeleteProposal\<close>, then one per \<^verbatim>\<open>DeleteVote\<close> of the
  loop.
\<close>

fun delete_votes_trace :: "Context \<Rightarrow> Vote list \<Rightarrow> Context list" where
  "delete_votes_trace c [] = []"
| "delete_votes_trace c (v # vs) =
     (let c' = DeleteVote c (ProposalID v) (Voter v) in c' # delete_votes_trace c' vs)"

definition DeleteProposalAndVotes_trace :: "Context \<Rightarrow> 64 word \<Rightarrow> Context list" where
  "DeleteProposalAndVotes_trace ctx proposalID =
     (let votes = IterateVotes ctx proposalID collect_vote [];
          ctx1 = DeleteProposal ctx proposalID
      in ctx # ctx1 # delete_votes_trace ctx1 votes)"

text \<open>The callback of \<^verbatim>\<open>CloseExpiredProposals\<close>; \<open>ctx\<close> is the context of the call.\<close>

definition close_if_expired :: "Context \<Rightarrow> Proposal \<Rightarrow> Context \<Rightarrow> bool \<times> Context" where
  "close_if_expired ctx proposal c =
     (if HasExpiredBy proposal (BlockTime ctx)
      then (False,
            EmitEvent (DeleteProposalAndVotes c (Proposal.ID proposal))
              (NewEvent EventTypeProposalClose
                 [(AttributeKeyCommitteeID, Text (fmt_d (CommitteeID proposal))),
                  (AttributeKeyProposalID, Text (fmt_d (Proposal.ID proposal))),
                  (AttributeKeyProposalCloseStatus, AttributeValueProposalTimeout)]))
      else (False, c))"

definition CloseExpiredProposals :: "Context \<Rightarrow> Context" where
  "CloseExpiredProposals ctx = IterateProposals ctx (close_if_expired ctx) ctx"


text \<open>
  For the statements about \<^verbatim>\<open>CloseExpiredProposals\<close>: a callback that also writes down
  the id of each proposal it is handed, the event of a closed proposal, and whether the
  store holds a proposal of this id that has expired by the block time.
\<close>

definition logging ::
  "(Proposal \<Rightarrow> 's \<Rightarrow> bool \<times> 's) \<Rightarrow> Proposal \<Rightarrow> 's \<times> 64 word list \<Rightarrow> bool \<times> 's \<times> 64 word list" where
  "logging cb proposal = (\<lambda>(s, seen).
     case cb proposal s of (stop, s') \<Rightarrow> (stop, s', seen @ [Proposal.ID proposal]))"

definition close_event :: "Proposal \<Rightarrow> Event" where
  "close_event proposal =
     NewEvent EventTypeProposalClose
       [(AttributeKeyCommitteeID, Text (fmt_d (CommitteeID proposal))),
        (AttributeKeyProposalID, Text (fmt_d (Proposal.ID proposal))),
        (AttributeKeyProposalCloseStatus, AttributeValueProposalTimeout)]"

definition expired_at :: "Context \<Rightarrow> 64 word \<Rightarrow> bool" where
  "expired_at ctx proposalID =
     (case GetProposal ctx proposalID of
        None \<Rightarrow> False
      | Some pr \<Rightarrow> HasExpiredBy pr (BlockTime ctx))"

section \<open>Example states\<close>

text \<open>
  The committee of the spec's scenario: members A, B and C, threshold one half, proposal
  duration 100; D is not a member. The committee may enact anything.
\<close>

definition addrA :: AccAddress where "addrA = [1]"
definition addrB :: AccAddress where "addrB = [2]"
definition addrC :: AccAddress where "addrC = [3]"
definition addrD :: AccAddress where "addrD = [4]"

definition pp0 :: PubProposal where
  "pp0 = \<lparr>ProposalRoute = ''params'', ValidateBasic = None, Payload = ''change''\<rparr>"

definition com1 :: Committee where
  "com1 = \<lparr>Committee.ID = 1, Members = [addrA, addrB, addrC], Permissions = [\<lambda>_. True],
            VoteThreshold = 5 * 10 ^ 17, ProposalDuration = 100\<rparr>"

definition store0 :: Store where
  "store0 = \<lparr>committeeStore = fmupd 1 com1 fmempty, proposalStore = fmempty,
              voteStore = fmempty, nextProposalID = 1\<rparr>"

definition ctx0 :: Context where
  "ctx0 = \<lparr>MultiStore = store0, BlockTime = 0, EventManager = []\<rparr>"

text \<open>A handler that writes a vote into the store of its context and then panics.\<close>

definition panicking_handler :: Handler where
  "panicking_handler c pp =
     (HPanic (Some ''unregistered key''), SetVote c \<lparr>ProposalID = 9, Voter = addrD\<rparr>)"

definition k_panic :: Keeper where
  "k_panic = \<lparr>codespace = ''committee'', router = [''params'' \<mapsto> panicking_handler]\<rparr>"

text \<open>A handler that panics with nil.\<close>

definition nil_panicking_handler :: Handler where
  "nil_panicking_handler c pp = (HPanic None, c)"

definition k_nil_panic :: Keeper where
  "k_nil_panic = \<lparr>codespace = ''committee'', router = [''params'' \<mapsto> nil_panicking_handler]\<rparr>"

text \<open>A proposal of a committee that is not in the store.\<close>

definition orphan :: Proposal where
  "orphan = \<lparr>PubProposal = Some pp0, ID = 5, CommitteeID = 7, Deadline = 100\<rparr>"

definition ctx_orphan :: Context where
  "ctx_orphan = ctx0\<lparr>MultiStore := store0\<lparr>proposalStore := fmupd 5 orphan fmempty\<rparr>\<rparr>"

text \<open>
  A handler that looks at the events of its context: it returns an error when some are
  pending. The cached context of a dry run has none.
\<close>

definition fussy_handler :: Handler where
  "fussy_handler c pp =
     (if EventManager c = [] then HReturn None else HReturn (Some (ErrOther ''events pending'')), c)"

definition k_fussy :: Keeper where
  "k_fussy = \<lparr>codespace = ''committee'', router = [''params'' \<mapsto> fussy_handler]\<rparr>"

text \<open>
  The proposal A submits at time 0, further contexts holding it, and a second committee
  with no permission at all.
\<close>

definition proposal1 :: Proposal where
  "proposal1 = \<lparr>PubProposal = Some pp0, ID = 1, CommitteeID = 1, Deadline = 100\<rparr>"

definition com2 :: Committee where
  "com2 = \<lparr>Committee.ID = 2, Members = [addrA], Permissions = [],
            VoteThreshold = 10 ^ 18, ProposalDuration = 100\<rparr>"

definition ctx_two :: Context where
  "ctx_two = ctx0\<lparr>MultiStore := store0\<lparr>committeeStore := fmupd 2 com2 (fmupd 1 com1 fmempty)\<rparr>\<rparr>"

definition ctx_pending :: Context where
  "ctx_pending = ctx0\<lparr>MultiStore := store0\<lparr>proposalStore := fmupd 1 proposal1 fmempty\<rparr>\<rparr>"

definition ctx_submitted :: Context where
  "ctx_submitted = snd (SubmitProposal k_fussy ctx0 addrA 1 (Some pp0))"

text \<open>Proposal 1 with the votes of A and B.\<close>

definition voteA :: Vote where "voteA = \<lparr>ProposalID = 1, Voter = addrA\<rparr>"
definition voteB :: Vote where "voteB = \<lparr>ProposalID = 1, Voter = addrB\<rparr>"

definition ctx_voted :: Context where
  "ctx_voted = ctx0\<lparr>MultiStore := store0
     \<lparr>proposalStore := fmupd 1 proposal1 fmempty,
      voteStore := fmupd (1, addrA) voteA (fmupd (1, addrB) voteB fmempty)\<rparr>\<rparr>"

text \<open>
  Proposal 1 with the vote of A only, and the store of the spec's expiry sweep at time
  150: the deadlines 100, 150 and 200, one vote each.
\<close>

definition ctx_one_vote :: Context where
  "ctx_one_vote = ctx0\<lparr>MultiStore := store0
     \<lparr>proposalStore := fmupd 1 proposal1 fmempty,
      voteStore := fmupd (1, addrA) voteA fmempty\<rparr>\<rparr>"

definition proposal2 :: Proposal where
  "proposal2 = \<lparr>PubProposal = Some pp0, ID = 2, CommitteeID = 1, Deadline = 150\<rparr>"

definition proposal3 :: Proposal where
  "proposal3 = \<lparr>PubProposal = Some pp0, ID = 3, CommitteeID = 1, Deadline = 200\<rparr>"

definition ctx_sweep :: Context where
  "ctx_sweep = \<lparr>MultiStore = store0
     \<lparr>proposalStore := fmupd 3 proposal3 (fmupd 1 proposal1 (fmupd 2 proposal2 fmempty)),
      voteStore := fmupd (3, addrC) \<lparr>ProposalID = 3, Voter = addrC\<rparr>
        (fmupd (1, addrA) voteA (fmupd (2, addrB) \<lparr>ProposalID = 2, Voter = addrB\<rparr> fmempty))\<rparr>,
     BlockTime = 150, EventManager = []\<rparr>"

section \<open>The cdp module: x/cdp/genesis.go\<close>

text \<open>
  The types of x/cdp/types are not among the sources; the records below hold the fields
  \<^verbatim>\<open>InitGenesis\<close> reads.
\<close>

record Coin =
  Denom :: string
  Amount :: int

type_synonym Coins = "Coin list"

record CollateralParam =
  Denom :: string
  MarketID :: string

record DebtParam =
  Denom :: string

record Params =
  CollateralParams :: "CollateralParam list"
  DebtParams :: "DebtParam list"

record CDP =
  ID :: "64 word"
  Owner :: AccAddress
  Collateral :: Coin
  Principal :: Coins
  AccumulatedFees :: Coins

record Deposit =
  CdpID :: "64 word"
  Depositor :: AccAddress
  Amount :: Coins

record GenesisState =
  Params :: Params
  CDPs :: "CDP list"
  Deposits :: "Deposit list"
  StartingCdpID :: "64 word"
  DebtDenom :: string
  GovDenom :: string

record Market =
  MarketID :: string

record PricefeedParams =
  Markets :: "Market list"

text \<open>
  The collaborators. \<^verbatim>\<open>SupplyKeeper.GetModuleAccount\<close> yields the module account of a
  name, or nil; \<^verbatim>\<open>PricefeedKeeper.GetParams\<close> yields the markets.
\<close>

record SupplyKeeper =
  GetModuleAccount :: "string \<rightharpoonup> AccAddress"

record PricefeedKeeper =
  GetParams :: PricefeedParams

text \<open>
  What \<^verbatim>\<open>InitGenesis\<close> uses and the sources do not hold, taken as parameters: the names
  of the three module accounts (constants of x/cdp/types), \<^verbatim>\<open>GenesisState.Validate\<close>
  (the text of its error, or nil), \<^verbatim>\<open>CDP.String\<close>, the sum of two \<^verbatim>\<open>sdk.Coins\<close> and
  the keeper's \<^verbatim>\<open>CalculateCollateralToDebtRatio\<close>.
\<close>

record Externals =
  ModuleName :: string
  LiquidatorMacc :: string
  SavingsRateMacc :: string
  Validate :: "GenesisState \<Rightarrow> string option"
  CDP_String :: "CDP \<Rightarrow> string"
  Coins_Add :: "Coins \<Rightarrow> Coins \<Rightarrow> Coins"
  CalculateCollateralToDebtRatio :: "Coin \<Rightarrow> Coins \<Rightarrow> Dec"

text \<open>The keeper's setters are not among the sources: a call is written down as it is made.\<close>

datatype keeper_call =
    SetParams Params
  | SetTotalPrincipal string string int
  | SetCDP CDP
  | IndexCdpByOwner CDP
  | IndexCdpByCollateralRatio string "64 word" Dec
  | IncrementTotalPrincipal string Coins
  | SetNextCdpID "64 word"
  | SetDebtDenom string
  | SetGovDenom string
  | SetDeposit Deposit

text \<open>
  The loop over the collateral params: the first whose market is not in the pricefeed
  makes \<^verbatim>\<open>InitGenesis\<close> panic.
\<close>

fun check_collaterals :: "string list \<Rightarrow> CollateralParam list \<Rightarrow> string option" where
  "check_collaterals collateralMap [] = None"
| "check_collaterals collateralMap (col # cols) =
     (if CollateralParam.MarketID col \<notin> set collateralMap
      then Some (CollateralParam.Denom col @ '' collateral not found in pricefeed'')
      else check_collaterals collateralMap cols)"

text \<open>
  The loop that adds the cdps: the calls made for them, or the panic at the first cdp
  whose id is the starting id. A panic ends the process: what was written before is of
  no account.
\<close>

fun add_cdps :: "Externals \<Rightarrow> 64 word \<Rightarrow> CDP list \<Rightarrow> keeper_call list outcome" where
  "add_cdps ext start [] = Return []"
| "add_cdps ext start (cdp # cdps) =
     (if CDP.ID cdp = start
      then Panic (PanicValue
        (''starting cdp id is assigned to an existing cdp: '' @ CDP_String ext cdp))
      else
        (let ratio = CalculateCollateralToDebtRatio ext (Collateral cdp)
               (Coins_Add ext (Principal cdp) (AccumulatedFees cdp))
         in case add_cdps ext start cdps of
              Panic v \<Rightarrow> Panic v
            | Return calls \<Rightarrow>
                Return ([SetCDP cdp, IndexCdpByOwner cdp,
                         IndexCdpByCollateralRatio (Coin.Denom (Collateral cdp)) (CDP.ID cdp) ratio,
                         IncrementTotalPrincipal (Coin.Denom (Collateral cdp)) (Principal cdp)]
                        @ calls)))"

definition InitGenesis ::
  "Externals \<Rightarrow> PricefeedKeeper \<Rightarrow> SupplyKeeper \<Rightarrow> GenesisState \<Rightarrow> keeper_call list outcome" where
  "InitGenesis ext pk sk gs =
     (case Validate ext gs of
        Some err \<Rightarrow>
          Panic (PanicValue (''failed to validate '' @ ModuleName ext @ '' genesis state: '' @ err))
      | None \<Rightarrow>
          if GetModuleAccount sk (ModuleName ext) = None
          then Panic (PanicValue (ModuleName ext @ '' module account has not been set''))
          else if GetModuleAccount sk (LiquidatorMacc ext) = None
          then Panic (PanicValue (LiquidatorMacc ext @ '' module account has not been set''))
          else if GetModuleAccount sk (SavingsRateMacc ext) = None
          then Panic (PanicValue (SavingsRateMacc ext @ '' module account has not been set''))
          else
            (let collateralMap = map Market.MarketID (Markets (GetParams pk)) in
             case check_collaterals collateralMap (CollateralParams (Params gs)) of
               Some msg \<Rightarrow> Panic (PanicValue msg)
             | None \<Rightarrow>
                 (case add_cdps ext (StartingCdpID gs) (CDPs gs) of
                    Panic v \<Rightarrow> Panic v
                  | Return cdp_calls \<Rightarrow>
                      Return
                        ([SetParams (Params gs)]
                         @ concat (map (\<lambda>cp. map (\<lambda>dp.
                               SetTotalPrincipal (CollateralParam.Denom cp) (DebtParam.Denom dp) 0)
                             (DebtParams (Params gs)))
                           (CollateralParams (Params gs)))
                         @ cdp_calls
                         @ [SetNextCdpID (StartingCdpID gs), SetDebtDenom (DebtDenom gs),
                            SetGovDenom (GovDenom gs)]
                         @ map SetDeposit (Deposits gs)))))"

text \<open>
  A genesis state with nothing in it, and supply keepers with and without the liquidator
  module account.
\<close>

definition ext0 :: Externals where
  "ext0 = \<lparr>ModuleName = ''cdp'', LiquidatorMacc = ''liquidator'', SavingsRateMacc = ''savings'',
           Validate = (\<lambda>gs. None), CDP_String = (\<lambda>cdp. ''cdp''),
           Coins_Add = (\<lambda>a b. a @ b), CalculateCollateralToDebtRatio = (\<lambda>c d. 0)\<rparr>"

definition gs0 :: GenesisState where
  "gs0 = \<lparr>Params = \<lparr>CollateralParams = [], DebtParams = []\<rparr>, CDPs = [], Deposits = [],
          StartingCdpID = 1, DebtDenom = ''debt'', GovDenom = ''ukava''\<rparr>"

definition pk0 :: PricefeedKeeper where
  "pk0 = \<lparr>GetParams = \<lparr>Markets = []\<rparr>\<rparr>"

definition sk_no_liquidator :: SupplyKeeper where
  "sk_no_liquidator = \<lparr>GetModuleAccount = [''cdp'' \<mapsto> [10], ''savings'' \<mapsto> [12]]\<rparr>"

definition sk_all :: SupplyKeeper where
  "sk_all = \<lparr>GetModuleAccount = [''cdp'' \<mapsto> [10], ''liquidator'' \<mapsto> [11], ''savings'' \<mapsto> [12]]\<rparr>"

section \<open>Properties\<close>

subsection \<open>Auxiliary facts\<close>

text \<open>\<^verbatim>\<open>ValidatePubProposal\<close> returns, and the context is the one it was given.\<close>

lemma ValidatePubProposal_returns:
  "\<exists>res. ValidatePubProposal k ctx pubProposal = (Return res, ctx)"
proof (cases pubProposal)
  case None
  then show ?thesis by (simp add: ValidatePubProposal_def)
next
  case (Some pp)
  note content = this
  show ?thesis
  proof (cases "router k (ProposalRoute pp)")
    case None
    with content show ?thesis
      by (simp add: ValidatePubProposal_def HasRoute_def split: option.splits)
  next
    case (Some handler)
    have "\<exists>err. deferred_recover cs res = Return err" for cs res
      by (induction cs res rule: deferred_recover.induct) simp_all
    then have "\<exists>err. deferred_recover (codespace k) (fst (handler (CacheContext ctx) pp)) = Return err"
      by blast
    with Some content show ?thesis
      by (auto simp add: ValidatePubProposal_def HasRoute_def Let_def split: option.splits)
  qed
qed

lemma validate_fussy: "ValidatePubProposal k_fussy ctx (Some pp0) = (Return None, ctx)"
  by (simp add: ValidatePubProposal_def k_fussy_def pp0_def HasRoute_def CacheContext_def
      fussy_handler_def)

lemma com1_lookup: "GetCommittee ctx0 1 = Some com1"
  by (simp add: GetCommittee_def ctx0_def store0_def)

lemma submit_fussy:
  "SubmitProposal k_fussy ctx0 addrA 1 (Some pp0) =
     (Return (Inr 1),
      \<lparr>MultiStore = store0\<lparr>proposalStore := fmupd 1 proposal1 fmempty, nextProposalID := 2\<rparr>,
       BlockTime = 0,
       EventManager = [NewEvent EventTypeProposalSubmit
          [(AttributeKeyCommitteeID, Text (fmt_d 1)), (AttributeKeyProposalID, Text (fmt_d 1))]]\<rparr>)"
  by (simp add: SubmitProposal_def com1_lookup validate_fussy HasMember_def HasPermissionsFor_def
      StoreNewProposal_def SetProposal_def EmitEvent_def Let_def)
   (simp add: com1_def addrA_def ctx0_def store0_def proposal1_def)


lemma iterate_collect_vote: "iterate collect_vote xs acc = acc @ xs"
  by (induction xs arbitrary: acc) (simp_all add: collect_vote_def)

lemma IterateVotes_collect: "IterateVotes ctx proposalID collect_vote [] = stored_votes ctx proposalID"
  by (simp add: IterateVotes_def iterate_collect_vote)

lemma TallyVotes_length: "TallyVotes ctx proposalID = int (length (stored_votes ctx proposalID))"
  by (simp add: TallyVotes_def IterateVotes_collect)

lemma map_filter_keys:
  "\<forall>key \<in> set ks. \<exists>v. f key = Some v \<and> g v = key \<Longrightarrow> map g (List.map_filter f ks) = ks"
  by (induction ks) (auto simp add: List.map_filter_simps)

lemma stored_votes_keys:
  assumes "wf_store (MultiStore ctx)"
  shows "map vote_key (stored_votes ctx proposalID) =
         filter (\<lambda>key. fst key = proposalID) (sorted_list_of_fset (fmdom (voteStore (MultiStore ctx))))"
proof -
  have "\<forall>key \<in> set (filter (\<lambda>key. fst key = proposalID)
            (sorted_list_of_fset (fmdom (voteStore (MultiStore ctx))))).
          \<exists>v. fmlookup (voteStore (MultiStore ctx)) key = Some v \<and> vote_key v = key"
  proof
    fix key
    assume "key \<in> set (filter (\<lambda>key. fst key = proposalID)
            (sorted_list_of_fset (fmdom (voteStore (MultiStore ctx)))))"
    then have "key |\<in>| fmdom (voteStore (MultiStore ctx))" by simp
    then obtain v where v: "fmlookup (voteStore (MultiStore ctx)) key = Some v"
      by (auto simp add: fmlookup_dom_iff)
    with assms have "vote_key v = key"
      by (auto simp add: wf_store_def dest: fmpredD)
    with v show "\<exists>v. fmlookup (voteStore (MultiStore ctx)) key = Some v \<and> vote_key v = key"
      by simp
  qed
  then show ?thesis unfolding stored_votes_def by (rule map_filter_keys)
qed

lemma foldl_DeleteVote:
  "foldl (\<lambda>c v. DeleteVote c (ProposalID v) (Voter v)) c vs =
     c\<lparr>MultiStore := (MultiStore c)
         \<lparr>voteStore := fmfilter (\<lambda>key. key \<notin> set (map vote_key vs)) (voteStore (MultiStore c))\<rparr>\<rparr>"
proof (induction vs arbitrary: c)
  case Nil
  then show ?case by simp
next
  case (Cons v vs)
  have drop: "fmfilter (\<lambda>key. key \<notin> set (map vote_key vs)) (fmdrop (vote_key v) m) =
        fmfilter (\<lambda>key. key \<notin> set (map vote_key (v # vs))) m" for m
    by (rule fmap_ext) auto
  let ?c = "DeleteVote c (ProposalID v) (Voter v)"
  have "foldl (\<lambda>c v. DeleteVote c (ProposalID v) (Voter v)) c (v # vs) =
        foldl (\<lambda>c v. DeleteVote c (ProposalID v) (Voter v)) ?c vs"
    by simp
  also have "\<dots> = ?c\<lparr>MultiStore := (MultiStore ?c)
         \<lparr>voteStore := fmfilter (\<lambda>key. key \<notin> set (map vote_key vs)) (voteStore (MultiStore ?c))\<rparr>\<rparr>"
    by (rule Cons.IH)
  also have "\<dots> = c\<lparr>MultiStore := (MultiStore c)
         \<lparr>voteStore := fmfilter (\<lambda>key. key \<notin> set (map vote_key vs))
            (fmdrop (vote_key v) (voteStore (MultiStore c)))\<rparr>\<rparr>"
    by (simp add: DeleteVote_def vote_key_def cong del: fmfilter_cong)
  finally show ?case by (simp only: drop)
qed

lemma DeleteProposalAndVotes_store:
  assumes "wf_store (MultiStore ctx)"
  shows "DeleteProposalAndVotes ctx proposalID =
     ctx\<lparr>MultiStore := (MultiStore ctx)
         \<lparr>proposalStore := fmdrop proposalID (proposalStore (MultiStore ctx)),
          voteStore := fmfilter (\<lambda>key. fst key \<noteq> proposalID) (voteStore (MultiStore ctx))\<rparr>\<rparr>"
proof -
  have "fmfilter (\<lambda>key. key \<notin> set (map vote_key (stored_votes ctx proposalID)))
          (voteStore (MultiStore ctx)) =
        fmfilter (\<lambda>key. fst key \<noteq> proposalID) (voteStore (MultiStore ctx))"
    by (rule fmfilter_cong) (auto simp add: stored_votes_keys [OF assms] fmdom'_alt_def)
  moreover have "DeleteProposalAndVotes ctx proposalID =
     ctx\<lparr>MultiStore := (MultiStore ctx)
         \<lparr>proposalStore := fmdrop proposalID (proposalStore (MultiStore ctx)),
          voteStore := fmfilter (\<lambda>key. key \<notin> set (map vote_key (stored_votes ctx proposalID)))
            (voteStore (MultiStore ctx))\<rparr>\<rparr>"
    unfolding DeleteProposalAndVotes_def IterateVotes_collect foldl_DeleteVote Let_def
    by (simp add: DeleteProposal_def cong del: fmfilter_cong)
  ultimately show ?thesis by (simp only:)
qed


lemma stored_votes_ctx_voted: "stored_votes ctx_voted 1 = [voteA, voteB]"
  unfolding stored_votes_def ctx_voted_def ctx0_def store0_def voteA_def voteB_def addrA_def addrB_def
  by code_simp

lemma last_delete_votes_trace:
  "last (c # delete_votes_trace c vs) = foldl (\<lambda>c v. DeleteVote c (ProposalID v) (Voter v)) c vs"
  by (induction vs arbitrary: c) (simp_all add: Let_def)

lemma delete_votes_trace_proposals:
  "c' \<in> set (delete_votes_trace c vs) \<Longrightarrow> GetProposal c' proposalID = GetProposal c proposalID"
  by (induction vs arbitrary: c) (auto simp add: Let_def GetProposal_def DeleteVote_def)

lemma AddVote_success:
  assumes "AddVote k ctx proposalID voter = (None, ctx1)"
  shows "MultiStore ctx1 = (MultiStore ctx)
           \<lparr>voteStore := fmupd (proposalID, voter) \<lparr>ProposalID = proposalID, Voter = voter\<rparr>
              (voteStore (MultiStore ctx))\<rparr>"
  using assms
  by (auto simp add: AddVote_def SetVote_def EmitEvent_def split: option.splits if_splits)

lemma AddVote_failure:
  assumes "AddVote k ctx proposalID voter = (Some err, ctx1)"
  shows "ctx1 = ctx"
  using assms
  by (auto simp add: AddVote_def split: option.splits if_splits)

lemma wf_store_AddVote:
  assumes "wf_store (MultiStore ctx)" and "AddVote k ctx proposalID voter = (res, ctx1)"
  shows "wf_store (MultiStore ctx1)"
proof (cases res)
  case None
  with assms(2) have "MultiStore ctx1 = (MultiStore ctx)
           \<lparr>voteStore := fmupd (proposalID, voter) \<lparr>ProposalID = proposalID, Voter = voter\<rparr>
              (voteStore (MultiStore ctx))\<rparr>"
    by (simp add: AddVote_success)
  with assms(1) show ?thesis
    by (auto simp add: wf_store_def vote_key_def)
next
  case (Some err)
  with assms(2) have "ctx1 = ctx" by (simp add: AddVote_failure)
  with assms(1) show ?thesis by simp
qed

lemma stored_votes_distinct:
  assumes "wf_store (MultiStore ctx)"
  shows "distinct (map Voter (stored_votes ctx proposalID))"
proof -
  let ?vs = "stored_votes ctx proposalID"
  have keys: "map vote_key ?vs =
      filter (\<lambda>key. fst key = proposalID) (sorted_list_of_fset (fmdom (voteStore (MultiStore ctx))))"
    by (rule stored_votes_keys [OF assms])
  have d: "distinct (map vote_key ?vs)"
    unfolding keys by (rule distinct_filter) (simp add: sorted_list_of_fset.rep_eq)
  have "\<forall>key \<in> set (map vote_key ?vs). fst key = proposalID"
    unfolding keys by simp
  then have pid: "\<forall>vote \<in> set ?vs. ProposalID vote = proposalID"
    by (simp add: vote_key_def)
  have "inj_on Voter (set ?vs)"
  proof (rule inj_onI)
    fix a b
    assume ab: "a \<in> set ?vs" "b \<in> set ?vs" "Voter a = Voter b"
    with pid have "vote_key a = vote_key b" by (simp add: vote_key_def)
    with d ab show "a = b" by (auto simp add: distinct_map dest: inj_onD)
  qed
  with d show ?thesis by (simp add: distinct_map)
qed

lemma stored_votes_member:
  assumes "wf_store (MultiStore ctx)"
    and "fmlookup (voteStore (MultiStore ctx)) (proposalID, voter) = Some vote"
  shows "voter \<in> set (map Voter (stored_votes ctx proposalID))"
proof -
  have "(proposalID, voter) \<in> set (map vote_key (stored_votes ctx proposalID))"
    using assms(2) by (simp add: stored_votes_keys [OF assms(1)] fmdomI)
  then show ?thesis by (force simp add: vote_key_def)
qed

lemma count_distinct_le: "distinct (map f xs) \<Longrightarrow> length (filter (\<lambda>x. f x = y) xs) \<le> 1"
  by (induction xs) (auto simp add: filter_empty_conv image_iff)

lemma count_distinct_member:
  "distinct (map f xs) \<Longrightarrow> y \<in> set (map f xs) \<Longrightarrow> length (filter (\<lambda>x. f x = y) xs) = 1"
  by (induction xs) (auto simp add: filter_empty_conv image_iff)

lemma stored_votes_length:
  assumes "wf_store (MultiStore ctx)"
  shows "length (stored_votes ctx proposalID) =
         card {key. key |\<in>| fmdom (voteStore (MultiStore ctx)) \<and> fst key = proposalID}"
proof -
  let ?ks = "sorted_list_of_fset (fmdom (voteStore (MultiStore ctx)))"
  have "length (stored_votes ctx proposalID) = length (map vote_key (stored_votes ctx proposalID))"
    by simp
  also have "\<dots> = length (filter (\<lambda>key. fst key = proposalID) ?ks)"
    by (simp only: stored_votes_keys [OF assms])
  also have "\<dots> = card ({key. fst key = proposalID} \<inter> set ?ks)"
    by (rule distinct_length_filter) (simp add: sorted_list_of_fset.rep_eq)
  also have "{key. fst key = proposalID} \<inter> set ?ks =
      {key. key |\<in>| fmdom (voteStore (MultiStore ctx)) \<and> fst key = proposalID}"
    by auto
  finally show ?thesis .
qed

lemma wf_store_DeleteVote:
  "wf_store (MultiStore ctx) \<Longrightarrow> wf_store (MultiStore (DeleteVote ctx proposalID voter))"
  by (auto simp add: wf_store_def DeleteVote_def)

lemma TallyVotes_DeleteVote:
  assumes "wf_store (MultiStore ctx)"
    and "fmlookup (voteStore (MultiStore ctx)) (proposalID, voter) = Some vote"
  shows "TallyVotes ctx proposalID = TallyVotes (DeleteVote ctx proposalID voter) proposalID + 1"
proof -
  let ?A = "{key. key |\<in>| fmdom (voteStore (MultiStore ctx)) \<and> fst key = proposalID}"
  have fin: "finite ?A"
    by (rule finite_subset [of _ "fset (fmdom (voteStore (MultiStore ctx)))"]) auto
  have mem: "(proposalID, voter) \<in> ?A"
    using assms(2) by (simp add: fmdomI)
  have "{key. key |\<in>| fmdom (voteStore (MultiStore (DeleteVote ctx proposalID voter))) \<and>
          fst key = proposalID} = ?A - {(proposalID, voter)}"
    by (auto simp add: DeleteVote_def)
  then have "length (stored_votes (DeleteVote ctx proposalID voter) proposalID) =
      card (?A - {(proposalID, voter)})"
    by (simp add: stored_votes_length [OF wf_store_DeleteVote [OF assms(1)]])
  also have "\<dots> = card ?A - 1"
    using fin mem by simp
  finally have less: "length (stored_votes (DeleteVote ctx proposalID voter) proposalID) =
      card ?A - 1" .
  have "0 < card ?A"
    using fin mem by (auto simp add: card_gt_0_iff)
  with less have "length (stored_votes (DeleteVote ctx proposalID voter) proposalID) + 1 = card ?A"
    by arith
  then show ?thesis
    by (simp add: TallyVotes_length stored_votes_length [OF assms(1)])
qed

lemma TallyVotes_AddVote:
  assumes "wf_store (MultiStore ctx)"
    and "AddVote k ctx proposalID voter = (None, ctx1)"
  shows "TallyVotes ctx1 proposalID =
         TallyVotes ctx proposalID +
           (if fmlookup (voteStore (MultiStore ctx)) (proposalID, voter) = None then 1 else 0)"
proof -
  let ?A = "{key. key |\<in>| fmdom (voteStore (MultiStore ctx)) \<and> fst key = proposalID}"
  have fin: "finite ?A"
    by (rule finite_subset [of _ "fset (fmdom (voteStore (MultiStore ctx)))"]) auto
  have wf1: "wf_store (MultiStore ctx1)"
    using assms by (rule wf_store_AddVote)
  have "{key. key |\<in>| fmdom (voteStore (MultiStore ctx1)) \<and> fst key = proposalID} =
      insert (proposalID, voter) ?A"
    by (auto simp add: AddVote_success [OF assms(2)])
  then have "length (stored_votes ctx1 proposalID) = card (insert (proposalID, voter) ?A)"
    by (simp add: stored_votes_length [OF wf1])
  also have "\<dots> = (if (proposalID, voter) \<in> ?A then card ?A else card ?A + 1)"
    using fin by (simp add: card_insert_if)
  also have "(proposalID, voter) \<in> ?A \<longleftrightarrow>
      fmlookup (voteStore (MultiStore ctx)) (proposalID, voter) \<noteq> None"
    by (simp add: fmlookup_dom_iff)
  finally show ?thesis
    by (simp add: TallyVotes_length stored_votes_length [OF assms(1)])
qed

lemma MulInt64_committee:
  assumes "0 < t" and "t \<le> 10 ^ 18" and "n < 2 ^ 63"
  shows "MulInt64 t (int n) = Return (t * int n)"
proof -
  have "t * int n \<le> 10 ^ 18 * 2 ^ 63"
    using assms by (intro mult_mono) simp_all
  also have "\<dots> < (2::int) ^ (255 + 60)" by simp
  finally have "t * int n < 2 ^ (255 + 60)" .
  moreover have "0 \<le> t * int n" using assms by simp
  ultimately show ?thesis by (simp add: MulInt64_def Let_def)
qed

lemma GTE_NewDec:
  "GTE (NewDec n) (t * int m) \<longleftrightarrow> dec_value t * of_nat m \<le> of_int n"
proof -
  have "GTE (NewDec n) (t * int m) \<longleftrightarrow> t * int m \<le> n * 10 ^ 18"
    by (simp add: GTE_def NewDec_def Precision_def)
  also have "\<dots> \<longleftrightarrow> (of_int (t * int m) :: rat) \<le> of_int (n * 10 ^ 18)"
    by (simp only: of_int_le_iff)
  also have "\<dots> \<longleftrightarrow> (of_int t * of_nat m :: rat) \<le> of_int n * 10 ^ 18"
    by simp
  also have "\<dots> \<longleftrightarrow> (of_int t * of_nat m :: rat) / 10 ^ 18 \<le> of_int n"
    by (simp add: pos_divide_le_eq)
  finally show ?thesis by (simp add: dec_value_def Precision_def)
qed

lemma set_map_filter: "set (List.map_filter f ks) = {v. \<exists>key \<in> set ks. f key = Some v}"
  by (induction ks) (auto simp add: List.map_filter_simps split: option.splits)

lemma stored_proposals_set:
  "pr \<in> set (stored_proposals ctx) \<longleftrightarrow> (\<exists>proposalID. GetProposal ctx proposalID = Some pr)"
  by (auto simp add: stored_proposals_def set_map_filter GetProposal_def fmdomI)

lemma stored_proposals_ids:
  assumes "wf_store (MultiStore ctx)"
  shows "map Proposal.ID (stored_proposals ctx) =
         sorted_list_of_fset (fmdom (proposalStore (MultiStore ctx)))"
proof -
  have "\<forall>key \<in> set (sorted_list_of_fset (fmdom (proposalStore (MultiStore ctx)))).
          \<exists>pr. fmlookup (proposalStore (MultiStore ctx)) key = Some pr \<and> Proposal.ID pr = key"
  proof
    fix key
    assume "key \<in> set (sorted_list_of_fset (fmdom (proposalStore (MultiStore ctx))))"
    then have "key |\<in>| fmdom (proposalStore (MultiStore ctx))" by simp
    then obtain pr where pr: "fmlookup (proposalStore (MultiStore ctx)) key = Some pr"
      by (auto simp add: fmlookup_dom_iff)
    with assms have "Proposal.ID pr = key"
      by (auto simp add: wf_store_def dest: fmpredD)
    with pr show "\<exists>pr. fmlookup (proposalStore (MultiStore ctx)) key = Some pr \<and> Proposal.ID pr = key"
      by simp
  qed
  then show ?thesis unfolding stored_proposals_def by (rule map_filter_keys)
qed

lemma iterate_logging:
  assumes "\<forall>x s. fst (cb x s) = False"
  shows "iterate (logging cb) xs (s, seen) = (iterate cb xs s, seen @ map Proposal.ID xs)"
proof (induction xs arbitrary: s seen)
  case Nil
  then show ?case by simp
next
  case (Cons x xs)
  obtain s' where c: "cb x s = (False, s')"
    using assms by (cases "cb x s") (metis fst_conv)
  with Cons [of s' "seen @ [Proposal.ID x]"] show ?case
    by (simp add: logging_def)
qed

lemma iterate_close_if_expired:
  "iterate (close_if_expired ctx) ps c =
     foldl (\<lambda>c p. if HasExpiredBy p (BlockTime ctx)
                   then EmitEvent (DeleteProposalAndVotes c (Proposal.ID p)) (close_event p)
                   else c) c ps"
  by (induction ps arbitrary: c) (simp_all add: close_if_expired_def close_event_def)

lemma wf_store_filter:
  "wf_store st \<Longrightarrow>
   wf_store (st\<lparr>proposalStore := fmfilter P (proposalStore st),
                voteStore := fmfilter Q (voteStore st)\<rparr>)"
  by (auto simp add: wf_store_def)

lemma close_step:
  assumes "wf_store (MultiStore c)"
  shows "EmitEvent (DeleteProposalAndVotes c proposalID) e =
     c\<lparr>MultiStore := (MultiStore c)
         \<lparr>proposalStore := fmfilter (\<lambda>key. key \<noteq> proposalID) (proposalStore (MultiStore c)),
          voteStore := fmfilter (\<lambda>key. fst key \<noteq> proposalID) (voteStore (MultiStore c))\<rparr>,
       EventManager := EventManager c @ [e]\<rparr>"
  by (simp add: DeleteProposalAndVotes_store [OF assms] EmitEvent_def fmfilter_alt_defs
      cong del: fmfilter_cong)

lemma foldl_close:
  assumes "wf_store (MultiStore c)"
  shows "foldl (\<lambda>c p. if HasExpiredBy p now
                   then EmitEvent (DeleteProposalAndVotes c (Proposal.ID p)) (close_event p)
                   else c) c ps =
     c\<lparr>MultiStore := (MultiStore c)
         \<lparr>proposalStore :=
            fmfilter (\<lambda>key. key \<notin> Proposal.ID ` {p \<in> set ps. HasExpiredBy p now})
              (proposalStore (MultiStore c)),
          voteStore :=
            fmfilter (\<lambda>key. fst key \<notin> Proposal.ID ` {p \<in> set ps. HasExpiredBy p now})
              (voteStore (MultiStore c))\<rparr>,
       EventManager := EventManager c @ map close_event (filter (\<lambda>p. HasExpiredBy p now) ps)\<rparr>"
  using assms
proof (induction ps arbitrary: c)
  case Nil
  have "fmfilter (\<lambda>key. True) m = m" for m :: "('a, 'b) fmap"
    by (rule fmap_ext) simp
  then show ?case by simp
next
  case (Cons p ps)
  let ?E = "Proposal.ID ` {p \<in> set ps. HasExpiredBy p now}"
  let ?step = "\<lambda>c p. if HasExpiredBy p now
                   then EmitEvent (DeleteProposalAndVotes c (Proposal.ID p)) (close_event p)
                   else c"
  show ?case
  proof (cases "HasExpiredBy p now")
    case False
    then have "{q \<in> set (p # ps). HasExpiredBy q now} = {q \<in> set ps. HasExpiredBy q now}"
      by auto
    with False Cons show ?thesis by simp
  next
    case True
    let ?c = "c\<lparr>MultiStore := (MultiStore c)
         \<lparr>proposalStore := fmfilter (\<lambda>key. key \<noteq> Proposal.ID p) (proposalStore (MultiStore c)),
          voteStore := fmfilter (\<lambda>key. fst key \<noteq> Proposal.ID p) (voteStore (MultiStore c))\<rparr>,
       EventManager := EventManager c @ [close_event p]\<rparr>"
    have E: "Proposal.ID ` {q \<in> set (p # ps). HasExpiredBy q now} = insert (Proposal.ID p) ?E"
      using True by auto
    have wf: "wf_store (MultiStore ?c)"
      using wf_store_filter [OF Cons.prems] by simp
    have "foldl ?step c (p # ps) = foldl ?step ?c ps"
      using True by (simp add: close_step [OF Cons.prems])
    also have "\<dots> = ?c\<lparr>MultiStore := (MultiStore ?c)
         \<lparr>proposalStore := fmfilter (\<lambda>key. key \<notin> ?E) (proposalStore (MultiStore ?c)),
          voteStore := fmfilter (\<lambda>key. fst key \<notin> ?E) (voteStore (MultiStore ?c))\<rparr>,
       EventManager := EventManager ?c @ map close_event (filter (\<lambda>p. HasExpiredBy p now) ps)\<rparr>"
      by (rule Cons.IH [OF wf])
    also have "\<dots> = c\<lparr>MultiStore := (MultiStore c)
         \<lparr>proposalStore := fmfilter (\<lambda>key. key \<notin> insert (Proposal.ID p) ?E)
              (proposalStore (MultiStore c)),
          voteStore := fmfilter (\<lambda>key. fst key \<notin> insert (Proposal.ID p) ?E)
              (voteStore (MultiStore c))\<rparr>,
       EventManager := EventManager c @ map close_event (filter (\<lambda>p. HasExpiredBy p now) (p # ps))\<rparr>"
      using True by (simp add: conj_commute cong del: fmfilter_cong)
    finally show ?thesis by (simp only: E)
  qed
qed


lemma expired_ids:
  assumes "wf_store (MultiStore ctx)"
  shows "key \<in> Proposal.ID ` {p \<in> set (stored_proposals ctx). HasExpiredBy p (BlockTime ctx)}
         \<longleftrightarrow> expired_at ctx key"
proof
  assume "key \<in> Proposal.ID ` {p \<in> set (stored_proposals ctx). HasExpiredBy p (BlockTime ctx)}"
  then obtain p proposalID where p: "GetProposal ctx proposalID = Some p"
    "HasExpiredBy p (BlockTime ctx)" "Proposal.ID p = key"
    by (auto simp add: stored_proposals_set)
  with assms have "proposalID = key"
    by (auto simp add: wf_store_def GetProposal_def dest: fmpredD)
  with p show "expired_at ctx key" by (simp add: expired_at_def)
next
  assume "expired_at ctx key"
  then obtain p where p: "GetProposal ctx key = Some p" "HasExpiredBy p (BlockTime ctx)"
    by (auto simp add: expired_at_def split: option.splits)
  with assms have "Proposal.ID p = key"
    by (auto simp add: wf_store_def GetProposal_def dest: fmpredD)
  with p show "key \<in> Proposal.ID ` {p \<in> set (stored_proposals ctx). HasExpiredBy p (BlockTime ctx)}"
    by (force simp add: stored_proposals_set)
qed

lemma CloseExpiredProposals_fold:
  assumes "wf_store (MultiStore ctx)"
  shows "CloseExpiredProposals ctx =
     ctx\<lparr>MultiStore := (MultiStore ctx)
         \<lparr>proposalStore := fmfilter (\<lambda>key. \<not> expired_at ctx key) (proposalStore (MultiStore ctx)),
          voteStore := fmfilter (\<lambda>key. \<not> expired_at ctx (fst key)) (voteStore (MultiStore ctx))\<rparr>,
       EventManager := EventManager ctx @
         map close_event (filter (\<lambda>p. HasExpiredBy p (BlockTime ctx)) (stored_proposals ctx))\<rparr>"
proof -
  have "CloseExpiredProposals ctx =
     foldl (\<lambda>c p. if HasExpiredBy p (BlockTime ctx)
                   then EmitEvent (DeleteProposalAndVotes c (Proposal.ID p)) (close_event p)
                   else c) ctx (stored_proposals ctx)"
    by (simp add: CloseExpiredProposals_def IterateProposals_def iterate_close_if_expired)
  then show ?thesis
    by (simp only: foldl_close [OF assms] expired_ids [OF assms])
qed

lemma sorted_list_of_fset_ffilter:
  "sorted_list_of_fset (ffilter P S) = filter P (sorted_list_of_fset S)"
proof (rule sorted_distinct_set_unique)
  show "sorted (sorted_list_of_fset (ffilter P S))"
    by (simp add: sorted_list_of_fset.rep_eq)
  show "distinct (sorted_list_of_fset (ffilter P S))"
    by (simp add: sorted_list_of_fset.rep_eq)
  show "sorted (filter P (sorted_list_of_fset S))"
    by (rule sorted_wrt_filter) (simp add: sorted_list_of_fset.rep_eq)
  show "distinct (filter P (sorted_list_of_fset S))"
    by (rule distinct_filter) (simp add: sorted_list_of_fset.rep_eq)
  show "set (sorted_list_of_fset (ffilter P S)) = set (filter P (sorted_list_of_fset S))"
    by auto
qed

lemma map_filter_cong_set:
  "\<forall>key \<in> set ks. f key = g key \<Longrightarrow> List.map_filter f ks = List.map_filter g ks"
  by (induction ks) (auto simp add: List.map_filter_simps split: option.splits)

lemma stored_votes_fmfilter:
  assumes "MultiStore c = (MultiStore ctx)
      \<lparr>proposalStore := ps, voteStore := fmfilter (\<lambda>key. Q (fst key)) (voteStore (MultiStore ctx))\<rparr>"
  shows "stored_votes c proposalID = (if Q proposalID then stored_votes ctx proposalID else [])"
proof -
  let ?m = "voteStore (MultiStore ctx)"
  let ?ks = "filter (\<lambda>key. fst key = proposalID) (sorted_list_of_fset (fmdom ?m))"
  have keys: "filter (\<lambda>key. fst key = proposalID)
        (sorted_list_of_fset (fmdom (fmfilter (\<lambda>key. Q (fst key)) ?m))) =
      (if Q proposalID then ?ks else [])"
    by (auto simp add: sorted_list_of_fset_ffilter filter_empty_conv intro: filter_cong)
  have vals: "List.map_filter (fmlookup (fmfilter (\<lambda>key. Q (fst key)) ?m)) ?ks =
      List.map_filter (fmlookup ?m) ?ks" if "Q proposalID"
    using that by (intro map_filter_cong_set) auto
  show ?thesis
    using keys vals
    by (simp add: stored_votes_def assms List.map_filter_simps cong del: fmfilter_cong)
qed

lemma wf_store_examples:
  "wf_store (MultiStore ctx_pending)" "wf_store (MultiStore ctx_voted)"
  "wf_store (MultiStore ctx_one_vote)" "wf_store (MultiStore ctx_sweep)"
  by (auto simp add: wf_store_def vote_key_def ctx_pending_def ctx_voted_def ctx_one_vote_def
      ctx_sweep_def ctx0_def store0_def proposal1_def proposal2_def proposal3_def voteA_def
      voteB_def intro!: fmpred_upd)

lemma stored_votes_ctx_one_vote: "stored_votes ctx_one_vote 1 = [voteA]"
  unfolding stored_votes_def ctx_one_vote_def ctx0_def store0_def voteA_def addrA_def
  by code_simp

text \<open>
  When every registered handler gives on the cached context the result it gives on the
  context itself, the panic "unexpected handler error" of \<^verbatim>\<open>EnactProposal\<close> cannot
  happen: the dry run has returned the error before.
\<close>

lemma EnactProposal_same_result_on_cache:
  assumes "\<And>r handler c pp. router k r = Some handler \<Longrightarrow>
             fst (handler (CacheContext c) pp) = fst (handler c pp)"
  shows "fst (EnactProposal k ctx proposalID) \<noteq> Panic (UnexpectedHandlerError err)"
proof (cases "GetProposal ctx proposalID")
  case None
  then show ?thesis by (simp add: EnactProposal_def)
next
  case (Some pr)
  note stored = this
  show ?thesis
  proof (cases "PubProposal pr")
    case None
    with stored show ?thesis
      by (simp add: EnactProposal_def ValidatePubProposal_def)
  next
    case (Some pp)
    note content = this
    show ?thesis
    proof (cases "router k (ProposalRoute pp)")
      case None
      with stored content show ?thesis
        by (simp add: EnactProposal_def ValidatePubProposal_def HasRoute_def split: option.splits)
    next
      case (Some handler)
      have same: "fst (handler (CacheContext ctx) pp) = fst (handler ctx pp)"
        using assms Some by blast
      obtain res c where h: "handler ctx pp = (res, c)" by (cases "handler ctx pp")
      with same have dry: "fst (handler (CacheContext ctx) pp) = res" by simp
      show ?thesis
      proof (cases "ValidateBasic pp")
        case None
        with stored content Some h dry show ?thesis
          by (cases "(codespace k, res)" rule: deferred_recover.cases)
             (auto simp add: EnactProposal_def ValidatePubProposal_def HasRoute_def Let_def
                split: option.splits)
      next
        case (Some e)
        with stored content show ?thesis
          by (simp add: EnactProposal_def ValidatePubProposal_def)
      qed
    qed
  qed
qed

subsection \<open>The dry run of ValidatePubProposal\<close>

text \<open>
  What \<^verbatim>\<open>ValidatePubProposal\<close> makes of a panic of the handler in the dry run: no panic
  leaves it; a panic with a value \<open>r\<close> becomes the error \<^verbatim>\<open>InvalidPubProposal\<close>
  "proposal handler panicked: r"; after a panic with nil the result is nil.
\<close>

lemma ValidatePubProposal_handler_panic:
  "(\<exists>err. fst (ValidatePubProposal k ctx pubProposal) = Return err) \<and>
   (\<forall>pp handler r.
      pubProposal = Some pp \<and> ValidateBasic pp = None \<and>
      router k (ProposalRoute pp) = Some handler \<and>
      fst (handler (CacheContext ctx) pp) = HPanic (Some r) \<longrightarrow>
      fst (ValidatePubProposal k ctx pubProposal) =
        Return (Some (ErrInvalidPubProposal (codespace k) (''proposal handler panicked: '' @ r)))) \<and>
   (\<forall>pp handler.
      pubProposal = Some pp \<and> ValidateBasic pp = None \<and>
      router k (ProposalRoute pp) = Some handler \<and>
      fst (handler (CacheContext ctx) pp) = HPanic None \<longrightarrow>
      fst (ValidatePubProposal k ctx pubProposal) = Return None)"
proof (intro conjI allI impI)
  show "\<exists>err. fst (ValidatePubProposal k ctx pubProposal) = Return err"
    using ValidatePubProposal_returns [of k ctx pubProposal] by auto
next
  fix pp handler r
  assume "pubProposal = Some pp \<and> ValidateBasic pp = None \<and>
      router k (ProposalRoute pp) = Some handler \<and>
      fst (handler (CacheContext ctx) pp) = HPanic (Some r)"
  then show "fst (ValidatePubProposal k ctx pubProposal) =
        Return (Some (ErrInvalidPubProposal (codespace k) (''proposal handler panicked: '' @ r)))"
    by (simp add: ValidatePubProposal_def HasRoute_def Let_def)
next
  fix pp handler
  assume "pubProposal = Some pp \<and> ValidateBasic pp = None \<and>
      router k (ProposalRoute pp) = Some handler \<and>
      fst (handler (CacheContext ctx) pp) = HPanic None"
  then show "fst (ValidatePubProposal k ctx pubProposal) = Return None"
    by (simp add: ValidatePubProposal_def HasRoute_def Let_def)
qed

text \<open>
  C2 says that every panic of the handler in the dry run is caught and turned into the
  error \<^verbatim>\<open>InvalidPubProposal\<close>, as the comment above the deferred function does ("This
  defer will catch panics and return a normal error"). The code misses one case: for a
  registered handler that panics with nil, the panic is caught, the test \<^verbatim>\<open>r != nil\<close>
  fails, and \<^verbatim>\<open>ValidatePubProposal\<close> returns nil: the content passes. A panic with a
  value is turned into the error.
\<close>

theorem ValidatePubProposal_nil_panic_passes:
  "ValidateBasic pp0 = None \<and>
   router k_nil_panic (ProposalRoute pp0) = Some nil_panicking_handler \<and>
   fst (nil_panicking_handler (CacheContext ctx0) pp0) = HPanic None \<and>
   ValidatePubProposal k_nil_panic ctx0 (Some pp0) = (Return None, ctx0) \<and>
   fst (panicking_handler (CacheContext ctx0) pp0) = HPanic (Some ''unregistered key'') \<and>
   fst (ValidatePubProposal k_panic ctx0 (Some pp0)) =
     Return (Some (ErrInvalidPubProposal ''committee''
       ''proposal handler panicked: unregistered key''))"
  by (simp add: ValidatePubProposal_def HasRoute_def Let_def pp0_def k_nil_panic_def
      nil_panicking_handler_def k_panic_def panicking_handler_def)

text \<open>
  C3. The context after \<^verbatim>\<open>ValidatePubProposal\<close>, and so the live store, is the one
  before it, for every content and every handler: one that writes, one that returns an
  error, one that panics. The handler has run on the cached context only, whose store is
  a copy of the live one.
\<close>

theorem ValidatePubProposal_leaves_live_store:
  "snd (ValidatePubProposal k ctx pubProposal) = ctx \<and>
   MultiStore (snd (ValidatePubProposal k ctx pubProposal)) = MultiStore ctx \<and>
   MultiStore (CacheContext ctx) = MultiStore ctx"
  by (simp add: ValidatePubProposal_def CacheContext_def Let_def split: option.splits)

theorem ValidatePubProposal_leaves_live_store_witness:
  "MultiStore (snd (panicking_handler (CacheContext ctx0) pp0)) \<noteq> MultiStore ctx0 \<and>
   MultiStore (snd (ValidatePubProposal k_panic ctx0 (Some pp0))) = store0"
proof -
  have "voteStore (MultiStore (snd (panicking_handler (CacheContext ctx0) pp0))) \<noteq>
        voteStore (MultiStore ctx0)"
    by (simp add: panicking_handler_def CacheContext_def SetVote_def ctx0_def store0_def)
  then have "MultiStore (snd (panicking_handler (CacheContext ctx0) pp0)) \<noteq> MultiStore ctx0"
    by metis
  with ValidatePubProposal_leaves_live_store [of k_panic ctx0 "Some pp0"]
  show ?thesis by (simp add: ctx0_def)
qed

subsection \<open>AddVote\<close>

text \<open>
  C10. When the proposal exists and has not expired, and its committee is not in the store,
  \<^verbatim>\<open>AddVote\<close> returns \<^verbatim>\<open>UnknownCommittee\<close> for every voter and writes nothing. The
  check comes after those of the proposal: a missing proposal gives \<^verbatim>\<open>UnknownProposal\<close>
  and an expired one \<^verbatim>\<open>ProposalExpired\<close>, whether the committee exists or not.
\<close>

theorem AddVote_unknown_committee:
  "(GetProposal ctx proposalID = Some pr \<and> \<not> HasExpiredBy pr (BlockTime ctx) \<and>
    GetCommittee ctx (CommitteeID pr) = None \<longrightarrow>
      AddVote k ctx proposalID voter =
        (Some (ErrUnknownCommittee (codespace k) (CommitteeID pr)), ctx)) \<and>
   (GetProposal ctx proposalID = None \<longrightarrow>
      AddVote k ctx proposalID voter = (Some (ErrUnknownProposal (codespace k) proposalID), ctx)) \<and>
   (GetProposal ctx proposalID = Some pr \<and> HasExpiredBy pr (BlockTime ctx) \<longrightarrow>
      AddVote k ctx proposalID voter =
        (Some (ErrProposalExpired (codespace k) (BlockTime ctx) (Deadline pr)), ctx))"
  by (simp add: AddVote_def)

theorem AddVote_unknown_committee_witness:
  "GetProposal ctx_orphan 5 = Some orphan \<and> \<not> HasExpiredBy orphan (BlockTime ctx_orphan) \<and>
   GetCommittee ctx_orphan (CommitteeID orphan) = None \<and>
   AddVote k_panic ctx_orphan 5 addrA = (Some (ErrUnknownCommittee ''committee'' 7), ctx_orphan) \<and>
   GetProposal ctx_orphan 6 = None \<and>
   AddVote k_panic ctx_orphan 6 addrA = (Some (ErrUnknownProposal ''committee'' 6), ctx_orphan) \<and>
   HasExpiredBy orphan (BlockTime (ctx_orphan\<lparr>BlockTime := 100\<rparr>)) \<and>
   AddVote k_panic (ctx_orphan\<lparr>BlockTime := 100\<rparr>) 5 addrA =
     (Some (ErrProposalExpired ''committee'' 100 100), ctx_orphan\<lparr>BlockTime := 100\<rparr>)"
proof -
  have h1: "GetProposal ctx_orphan 5 = Some orphan \<and>
      \<not> HasExpiredBy orphan (BlockTime ctx_orphan) \<and>
      GetCommittee ctx_orphan (CommitteeID orphan) = None"
    by (simp add: GetProposal_def GetCommittee_def HasExpiredBy_def ctx_orphan_def ctx0_def
        store0_def orphan_def)
  have h2: "GetProposal ctx_orphan 6 = None"
    by (simp add: GetProposal_def ctx_orphan_def ctx0_def store0_def)
  have h3: "GetProposal (ctx_orphan\<lparr>BlockTime := 100\<rparr>) 5 = Some orphan \<and>
      HasExpiredBy orphan (BlockTime (ctx_orphan\<lparr>BlockTime := 100\<rparr>))"
    by (simp add: GetProposal_def HasExpiredBy_def ctx_orphan_def ctx0_def store0_def orphan_def)
  from h1 AddVote_unknown_committee [of ctx_orphan 5 orphan k_panic addrA]
  have r1: "AddVote k_panic ctx_orphan 5 addrA =
      (Some (ErrUnknownCommittee ''committee'' 7), ctx_orphan)"
    by (simp add: k_panic_def orphan_def)
  from h2 AddVote_unknown_committee [of ctx_orphan 6 orphan k_panic addrA]
  have r2: "AddVote k_panic ctx_orphan 6 addrA =
      (Some (ErrUnknownProposal ''committee'' 6), ctx_orphan)"
    by (simp add: k_panic_def)
  from h3 AddVote_unknown_committee [of "ctx_orphan\<lparr>BlockTime := 100\<rparr>" 5 orphan k_panic addrA]
  have r3: "AddVote k_panic (ctx_orphan\<lparr>BlockTime := 100\<rparr>) 5 addrA =
     (Some (ErrProposalExpired ''committee'' 100 100), ctx_orphan\<lparr>BlockTime := 100\<rparr>)"
    by (simp add: k_panic_def orphan_def)
  from h1 h2 h3 r1 r2 r3 show ?thesis by simp
qed

subsection \<open>EnactProposal\<close>

text \<open>
  C1 as stated fails: A submits a proposal, which passes \<^verbatim>\<open>ValidatePubProposal\<close> and is
  stored; at enactment the dry run passes again, the handler called on the live context
  returns an error, and \<^verbatim>\<open>EnactProposal\<close> panics with it instead of returning it.
\<close>

theorem EnactProposal_handler_error_counterexample:
  "fst (SubmitProposal k_fussy ctx0 addrA 1 (Some pp0)) = Return (Inr 1) \<and>
   GetProposal ctx_submitted 1 = Some proposal1 \<and>
   fst (ValidatePubProposal k_fussy ctx_submitted (PubProposal proposal1)) = Return None \<and>
   router k_fussy (ProposalRoute pp0) = Some fussy_handler \<and>
   fst (fussy_handler ctx_submitted pp0) = HReturn (Some (ErrOther ''events pending'')) \<and>
   fst (EnactProposal k_fussy ctx_submitted 1) =
     Panic (UnexpectedHandlerError (ErrOther ''events pending''))"
proof -
  have g: "GetProposal ctx_submitted 1 = Some proposal1"
    by (simp add: ctx_submitted_def submit_fussy GetProposal_def)
  have p: "PubProposal proposal1 = Some pp0" by (simp add: proposal1_def)
  have r: "router k_fussy (ProposalRoute pp0) = Some fussy_handler"
    by (simp add: k_fussy_def pp0_def)
  have h: "fst (fussy_handler ctx_submitted pp0) = HReturn (Some (ErrOther ''events pending''))"
    by (simp add: ctx_submitted_def submit_fussy fussy_handler_def)
  have "fst (EnactProposal k_fussy ctx_submitted 1) =
     Panic (UnexpectedHandlerError (ErrOther ''events pending''))"
    using h by (auto simp add: EnactProposal_def g p validate_fussy r split: prod.splits)
  with g p r h show ?thesis by (simp add: submit_fussy validate_fussy)
qed

text \<open>
  C1, amended. \<^verbatim>\<open>EnactProposal\<close> returns as ordinary errors \<^verbatim>\<open>UnknownProposal\<close> and
  every error of \<^verbatim>\<open>ValidatePubProposal\<close> on the stored content (an error the handler
  returns in the dry run and a panic with a value it raises there among them), with the context
  untouched. When the dry run passes, the handler is called on the live context: nil is
  returned as nil, an error makes \<^verbatim>\<open>EnactProposal\<close> panic "unexpected handler error",
  and a panic of the handler is not caught.
\<close>

theorem EnactProposal_results:
  "(GetProposal ctx proposalID = None \<longrightarrow>
      EnactProposal k ctx proposalID = (Return (Some (ErrUnknownProposal (codespace k) proposalID)), ctx)) \<and>
   (\<forall>pr err. GetProposal ctx proposalID = Some pr \<and>
      fst (ValidatePubProposal k ctx (PubProposal pr)) = Return (Some err) \<longrightarrow>
      EnactProposal k ctx proposalID = (Return (Some err), ctx)) \<and>
   (\<forall>pr pp handler. GetProposal ctx proposalID = Some pr \<and>
      fst (ValidatePubProposal k ctx (PubProposal pr)) = Return None \<and>
      PubProposal pr = Some pp \<and> router k (ProposalRoute pp) = Some handler \<longrightarrow>
      EnactProposal k ctx proposalID =
        ((case fst (handler ctx pp) of
            HReturn None \<Rightarrow> Return None
          | HReturn (Some err) \<Rightarrow> Panic (UnexpectedHandlerError err)
          | HPanic (Some r) \<Rightarrow> Panic (PanicValue r)
          | HPanic None \<Rightarrow> Panic PanicNil),
         snd (handler ctx pp)))"
proof -
  show ?thesis
  proof (intro conjI allI impI)
    assume "GetProposal ctx proposalID = None"
    then show "EnactProposal k ctx proposalID =
        (Return (Some (ErrUnknownProposal (codespace k) proposalID)), ctx)"
      by (simp add: EnactProposal_def)
  next
    fix pr err
    assume a: "GetProposal ctx proposalID = Some pr \<and>
      fst (ValidatePubProposal k ctx (PubProposal pr)) = Return (Some err)"
    with ValidatePubProposal_returns [of k ctx "PubProposal pr"]
    have "ValidatePubProposal k ctx (PubProposal pr) = (Return (Some err), ctx)" by auto
    with a show "EnactProposal k ctx proposalID = (Return (Some err), ctx)"
      by (simp add: EnactProposal_def)
  next
    fix pr pp handler
    assume a: "GetProposal ctx proposalID = Some pr \<and>
      fst (ValidatePubProposal k ctx (PubProposal pr)) = Return None \<and>
      PubProposal pr = Some pp \<and> router k (ProposalRoute pp) = Some handler"
    with ValidatePubProposal_returns [of k ctx "PubProposal pr"]
    have v: "ValidatePubProposal k ctx (Some pp) = (Return None, ctx)" by auto
    obtain res c where h: "handler ctx pp = (res, c)" by (cases "handler ctx pp")
    show "EnactProposal k ctx proposalID =
        ((case fst (handler ctx pp) of
            HReturn None \<Rightarrow> Return None
          | HReturn (Some err) \<Rightarrow> Panic (UnexpectedHandlerError err)
          | HPanic (Some r) \<Rightarrow> Panic (PanicValue r)
          | HPanic None \<Rightarrow> Panic PanicNil),
         snd (handler ctx pp))"
      using a v h by (simp add: EnactProposal_def split: handler_result.splits option.splits)
  qed
qed

theorem EnactProposal_results_witness:
  "GetProposal ctx0 1 = None \<and>
   EnactProposal k_fussy ctx0 1 = (Return (Some (ErrUnknownProposal ''committee'' 1)), ctx0) \<and>
   GetProposal ctx_pending 1 = Some proposal1 \<and>
   fst (ValidatePubProposal k_panic ctx_pending (PubProposal proposal1)) =
     Return (Some (ErrInvalidPubProposal ''committee''
       ''proposal handler panicked: unregistered key'')) \<and>
   EnactProposal k_panic ctx_pending 1 =
     (Return (Some (ErrInvalidPubProposal ''committee''
       ''proposal handler panicked: unregistered key'')), ctx_pending) \<and>
   fst (ValidatePubProposal k_fussy ctx_pending (PubProposal proposal1)) = Return None \<and>
   PubProposal proposal1 = Some pp0 \<and>
   router k_fussy (ProposalRoute pp0) = Some fussy_handler \<and>
   EnactProposal k_fussy ctx_pending 1 = (Return None, ctx_pending)"
proof -
  have h1: "GetProposal ctx0 1 = None"
    by (simp add: GetProposal_def ctx0_def store0_def)
  have h2: "GetProposal ctx_pending 1 = Some proposal1"
    by (simp add: GetProposal_def ctx_pending_def ctx0_def store0_def)
  have p: "PubProposal proposal1 = Some pp0"
    by (simp add: proposal1_def)
  have v2: "fst (ValidatePubProposal k_panic ctx_pending (PubProposal proposal1)) =
     Return (Some (ErrInvalidPubProposal ''committee''
       ''proposal handler panicked: unregistered key''))"
    by (simp add: p ValidatePubProposal_def k_panic_def pp0_def HasRoute_def
        panicking_handler_def)
  have v3: "fst (ValidatePubProposal k_fussy ctx_pending (PubProposal proposal1)) = Return None"
    by (simp add: p validate_fussy)
  have r: "router k_fussy (ProposalRoute pp0) = Some fussy_handler"
    by (simp add: k_fussy_def pp0_def)
  have f: "fussy_handler ctx_pending pp0 = (HReturn None, ctx_pending)"
    by (simp add: fussy_handler_def ctx_pending_def ctx0_def)
  note main = EnactProposal_results
  from main [of ctx0 1 k_fussy] h1
  have r1: "EnactProposal k_fussy ctx0 1 = (Return (Some (ErrUnknownProposal ''committee'' 1)), ctx0)"
    by (simp add: k_fussy_def)
  from main [of ctx_pending 1 k_panic] h2 v2
  have r2: "EnactProposal k_panic ctx_pending 1 =
     (Return (Some (ErrInvalidPubProposal ''committee''
       ''proposal handler panicked: unregistered key'')), ctx_pending)"
    by blast
  from main [of ctx_pending 1 k_fussy] h2 v3 p r
  have "EnactProposal k_fussy ctx_pending 1 =
        ((case fst (fussy_handler ctx_pending pp0) of
            HReturn None \<Rightarrow> Return None
          | HReturn (Some err) \<Rightarrow> Panic (UnexpectedHandlerError err)
          | HPanic (Some r) \<Rightarrow> Panic (PanicValue r)
          | HPanic None \<Rightarrow> Panic PanicNil),
         snd (fussy_handler ctx_pending pp0))"
    by blast
  then have r3: "EnactProposal k_fussy ctx_pending 1 = (Return None, ctx_pending)"
    by (simp add: f)
  from h1 r1 h2 v2 r2 v3 p r r3 show ?thesis by simp
qed

subsection \<open>SubmitProposal\<close>

text \<open>
  C4. \<^verbatim>\<open>SubmitProposal\<close> returns a proposal id exactly when the committee exists, the
  proposer is a member, the committee has permissions for the content and the content
  passes \<^verbatim>\<open>ValidatePubProposal\<close>. The checks come in this order and the first that fails
  gives the error. A call that returns no proposal id leaves the context as it was: no
  proposal stored, the id counter unchanged.
\<close>

theorem SubmitProposal_preconditions:
  "((\<exists>proposalID. fst (SubmitProposal k ctx proposer committeeID pubProposal) = Return (Inr proposalID)) \<longleftrightarrow>
      (\<exists>com. GetCommittee ctx committeeID = Some com \<and> HasMember com proposer \<and>
             HasPermissionsFor com pubProposal \<and>
             fst (ValidatePubProposal k ctx pubProposal) = Return None)) \<and>
   (GetCommittee ctx committeeID = None \<longrightarrow>
      fst (SubmitProposal k ctx proposer committeeID pubProposal) =
        Return (Inl (ErrUnknownCommittee (codespace k) committeeID))) \<and>
   (\<forall>com. GetCommittee ctx committeeID = Some com \<and> \<not> HasMember com proposer \<longrightarrow>
      fst (SubmitProposal k ctx proposer committeeID pubProposal) =
        Return (Inl (ErrUnauthorized ''proposer not member of committee''))) \<and>
   (\<forall>com. GetCommittee ctx committeeID = Some com \<and> HasMember com proposer \<and>
      \<not> HasPermissionsFor com pubProposal \<longrightarrow>
      fst (SubmitProposal k ctx proposer committeeID pubProposal) =
        Return (Inl (ErrUnauthorized ''committee does not have permissions to enact proposal''))) \<and>
   (\<forall>com err. GetCommittee ctx committeeID = Some com \<and> HasMember com proposer \<and>
      HasPermissionsFor com pubProposal \<and>
      fst (ValidatePubProposal k ctx pubProposal) = Return (Some err) \<longrightarrow>
      fst (SubmitProposal k ctx proposer committeeID pubProposal) = Return (Inl err)) \<and>
   ((\<forall>proposalID. fst (SubmitProposal k ctx proposer committeeID pubProposal) \<noteq> Return (Inr proposalID)) \<longrightarrow>
      snd (SubmitProposal k ctx proposer committeeID pubProposal) = ctx)"
proof -
  obtain res where v: "ValidatePubProposal k ctx pubProposal = (Return res, ctx)"
    using ValidatePubProposal_returns [of k ctx pubProposal] by blast
  show ?thesis
  proof (cases "GetCommittee ctx committeeID")
    case None
    then show ?thesis by (simp add: SubmitProposal_def)
  next
    case (Some com)
    then show ?thesis using v
      by (cases res) (simp_all add: SubmitProposal_def StoreNewProposal_def Let_def)
  qed
qed


theorem SubmitProposal_preconditions_witness:
  "fst (SubmitProposal k_fussy ctx_two addrA 1 (Some pp0)) = Return (Inr 1) \<and>
   GetCommittee ctx_two 1 = Some com1 \<and> HasMember com1 addrA \<and>
   HasPermissionsFor com1 (Some pp0) \<and>
   fst (ValidatePubProposal k_fussy ctx_two (Some pp0)) = Return None \<and>
   GetCommittee ctx_two 3 = None \<and>
   fst (SubmitProposal k_fussy ctx_two addrA 3 (Some pp0)) =
     Return (Inl (ErrUnknownCommittee ''committee'' 3)) \<and>
   \<not> HasMember com1 addrD \<and>
   fst (SubmitProposal k_fussy ctx_two addrD 1 (Some pp0)) =
     Return (Inl (ErrUnauthorized ''proposer not member of committee'')) \<and>
   GetCommittee ctx_two 2 = Some com2 \<and> HasMember com2 addrA \<and>
   \<not> HasPermissionsFor com2 (Some pp0) \<and>
   fst (SubmitProposal k_fussy ctx_two addrA 2 (Some pp0)) =
     Return (Inl (ErrUnauthorized ''committee does not have permissions to enact proposal'')) \<and>
   fst (ValidatePubProposal k_panic ctx_two (Some pp0)) =
     Return (Some (ErrInvalidPubProposal ''committee''
       ''proposal handler panicked: unregistered key'')) \<and>
   SubmitProposal k_panic ctx_two addrA 1 (Some pp0) =
     (Return (Inl (ErrInvalidPubProposal ''committee''
       ''proposal handler panicked: unregistered key'')), ctx_two)"
proof -
  have c1: "GetCommittee ctx_two 1 = Some com1" and c2: "GetCommittee ctx_two 2 = Some com2"
    and c3: "GetCommittee ctx_two 3 = None"
    by (simp_all add: GetCommittee_def ctx_two_def ctx0_def store0_def)
  have m1: "HasMember com1 addrA" and m2: "\<not> HasMember com1 addrD" and m3: "HasMember com2 addrA"
    by (simp_all add: HasMember_def com1_def com2_def addrA_def addrB_def addrC_def addrD_def)
  have p1: "HasPermissionsFor com1 (Some pp0)" and p2: "\<not> HasPermissionsFor com2 (Some pp0)"
    by (simp_all add: HasPermissionsFor_def com1_def com2_def)
  have v1: "fst (ValidatePubProposal k_fussy ctx_two (Some pp0)) = Return None"
    by (simp add: validate_fussy)
  have v2: "fst (ValidatePubProposal k_panic ctx_two (Some pp0)) =
     Return (Some (ErrInvalidPubProposal ''committee''
       ''proposal handler panicked: unregistered key''))"
    by (simp add: ValidatePubProposal_def k_panic_def pp0_def HasRoute_def panicking_handler_def)
  note main = SubmitProposal_preconditions
  from main [of k_fussy ctx_two addrA 1 "Some pp0"] c1 m1 p1 v1
  obtain proposalID where s: "fst (SubmitProposal k_fussy ctx_two addrA 1 (Some pp0)) =
      Return (Inr proposalID)"
    by blast
  have "proposalID = 1"
    using s by (simp add: SubmitProposal_def c1 m1 p1 validate_fussy StoreNewProposal_def Let_def)
      (simp add: ctx_two_def ctx0_def store0_def)
  with s have r1: "fst (SubmitProposal k_fussy ctx_two addrA 1 (Some pp0)) = Return (Inr 1)"
    by simp
  from main [of k_fussy ctx_two addrA 3 "Some pp0"] c3
  have r2: "fst (SubmitProposal k_fussy ctx_two addrA 3 (Some pp0)) =
     Return (Inl (ErrUnknownCommittee ''committee'' 3))"
    by (simp add: k_fussy_def)
  from main [of k_fussy ctx_two addrD 1 "Some pp0"] c1 m2
  have r3: "fst (SubmitProposal k_fussy ctx_two addrD 1 (Some pp0)) =
     Return (Inl (ErrUnauthorized ''proposer not member of committee''))"
    by blast
  from main [of k_fussy ctx_two addrA 2 "Some pp0"] c2 m3 p2
  have r4: "fst (SubmitProposal k_fussy ctx_two addrA 2 (Some pp0)) =
     Return (Inl (ErrUnauthorized ''committee does not have permissions to enact proposal''))"
    by blast
  from main [of k_panic ctx_two addrA 1 "Some pp0"] c1 m1 p1 v2
  have r5: "fst (SubmitProposal k_panic ctx_two addrA 1 (Some pp0)) =
     Return (Inl (ErrInvalidPubProposal ''committee''
       ''proposal handler panicked: unregistered key''))"
    by blast
  from main [of k_panic ctx_two addrA 1 "Some pp0"] r5
  have "snd (SubmitProposal k_panic ctx_two addrA 1 (Some pp0)) = ctx_two"
    by simp
  with r5 have r6: "SubmitProposal k_panic ctx_two addrA 1 (Some pp0) =
     (Return (Inl (ErrInvalidPubProposal ''committee''
       ''proposal handler panicked: unregistered key'')), ctx_two)"
    by (metis prod.collapse)
  from c1 c2 c3 m1 m2 m3 p1 p2 v1 v2 r1 r2 r3 r4 r5 r6 show ?thesis by simp
qed

subsection \<open>DeleteProposalAndVotes\<close>

text \<open>
  C8 as stated fails in the order: with proposal 1 and the votes of A and B in the store,
  the first write of \<^verbatim>\<open>DeleteProposalAndVotes\<close> removes the proposal, and its two
  votes are still there.
\<close>

theorem DeleteProposalAndVotes_order_counterexample:
  "GetProposal ctx_voted 1 = Some proposal1 \<and>
   GetProposal (DeleteProposalAndVotes_trace ctx_voted 1 ! 1) 1 = None \<and>
   stored_votes (DeleteProposalAndVotes_trace ctx_voted 1 ! 1) 1 = [voteA, voteB]"
proof -
  have "stored_votes (DeleteProposal ctx_voted 1) 1 = stored_votes ctx_voted 1"
    by (simp add: stored_votes_def DeleteProposal_def)
  then show ?thesis
    by (simp add: DeleteProposalAndVotes_trace_def Let_def stored_votes_ctx_voted)
      (simp add: GetProposal_def DeleteProposal_def ctx_voted_def ctx0_def)
qed

text \<open>
  C8, amended. \<^verbatim>\<open>DeleteProposalAndVotes\<close> collects the votes of the proposal, deletes the
  proposal, and then deletes the collected votes: the proposal is absent from the first
  write on. Afterwards the store holds neither the proposal nor a vote for it.
\<close>

theorem DeleteProposalAndVotes_removes:
  assumes "wf_store (MultiStore ctx)"
  shows "hd (DeleteProposalAndVotes_trace ctx proposalID) = ctx \<and>
    DeleteProposalAndVotes_trace ctx proposalID ! 1 = DeleteProposal ctx proposalID \<and>
    (\<forall>c \<in> set (tl (DeleteProposalAndVotes_trace ctx proposalID)). GetProposal c proposalID = None) \<and>
    last (DeleteProposalAndVotes_trace ctx proposalID) = DeleteProposalAndVotes ctx proposalID \<and>
    GetProposal (DeleteProposalAndVotes ctx proposalID) proposalID = None \<and>
    stored_votes (DeleteProposalAndVotes ctx proposalID) proposalID = [] \<and>
    (\<forall>voter. fmlookup (voteStore (MultiStore (DeleteProposalAndVotes ctx proposalID)))
        (proposalID, voter) = None)"
proof -
  let ?votes = "stored_votes ctx proposalID"
  let ?ctx1 = "DeleteProposal ctx proposalID"
  have trace: "DeleteProposalAndVotes_trace ctx proposalID =
      ctx # ?ctx1 # delete_votes_trace ?ctx1 ?votes"
    by (simp add: DeleteProposalAndVotes_trace_def IterateVotes_collect Let_def)
  have gone: "GetProposal ?ctx1 proposalID = None"
    by (simp add: GetProposal_def DeleteProposal_def)
  have a: "\<forall>c \<in> set (tl (DeleteProposalAndVotes_trace ctx proposalID)).
      GetProposal c proposalID = None"
    using gone by (auto simp add: trace delete_votes_trace_proposals)
  have b: "last (DeleteProposalAndVotes_trace ctx proposalID) =
      DeleteProposalAndVotes ctx proposalID"
    using last_delete_votes_trace [of ?ctx1 ?votes]
    by (simp add: trace DeleteProposalAndVotes_def IterateVotes_collect Let_def)
  note store = DeleteProposalAndVotes_store [OF assms, of proposalID]
  have c: "GetProposal (DeleteProposalAndVotes ctx proposalID) proposalID = None"
    by (simp add: store GetProposal_def)
  have d: "stored_votes (DeleteProposalAndVotes ctx proposalID) proposalID = []"
    by (simp add: store stored_votes_def List.map_filter_simps filter_empty_conv)
  have e: "\<forall>voter. fmlookup (voteStore (MultiStore (DeleteProposalAndVotes ctx proposalID)))
        (proposalID, voter) = None"
    by (simp add: store)
  from a b c d e show ?thesis by (simp add: trace)
qed

theorem DeleteProposalAndVotes_removes_witness:
  "wf_store (MultiStore ctx_voted) \<and>
   GetProposal ctx_voted 1 = Some proposal1 \<and>
   stored_votes ctx_voted 1 = [voteA, voteB] \<and>
   GetProposal (DeleteProposalAndVotes ctx_voted 1) 1 = None \<and>
   stored_votes (DeleteProposalAndVotes ctx_voted 1) 1 = [] \<and>
   fmlookup (voteStore (MultiStore (DeleteProposalAndVotes ctx_voted 1))) (1, addrA) = None \<and>
   last (DeleteProposalAndVotes_trace ctx_voted 1) = DeleteProposalAndVotes ctx_voted 1"
proof -
  have p: "GetProposal ctx_voted 1 = Some proposal1"
    by (simp add: GetProposal_def ctx_voted_def ctx0_def)
  from DeleteProposalAndVotes_removes [OF wf_store_examples(2), of 1] p
    wf_store_examples(2) stored_votes_ctx_voted
  show ?thesis by blast
qed

subsection \<open>Voting twice\<close>

text \<open>
  C6. When \<^verbatim>\<open>AddVote(id, v)\<close> succeeds twice in a row, the store holds the vote of \<open>v\<close>
  under the key \<open>(id, v)\<close>, and the second call has changed neither the store nor the
  tally. \<^verbatim>\<open>TallyVotes(id)\<close> is the number of the votes stored for \<open>id\<close>, of which
  exactly one is the vote of \<open>v\<close>: the tally is one more than it is once the vote of \<open>v\<close>
  is deleted, and it is the tally before the two calls, plus one when \<open>v\<close> had not voted
  before. No proposal has two votes of one voter.
\<close>

theorem AddVote_twice_one_record:
  assumes "wf_store (MultiStore ctx)"
    and "AddVote k ctx proposalID voter = (None, ctx1)"
    and "AddVote k ctx1 proposalID voter = (None, ctx2)"
  shows "fmlookup (voteStore (MultiStore ctx2)) (proposalID, voter) =
           Some \<lparr>ProposalID = proposalID, Voter = voter\<rparr> \<and>
         length (filter (\<lambda>vote. Voter vote = voter) (stored_votes ctx2 proposalID)) = 1 \<and>
         MultiStore ctx2 = MultiStore ctx1 \<and>
         TallyVotes ctx2 proposalID = TallyVotes ctx1 proposalID \<and>
         (\<forall>p v. length (filter (\<lambda>vote. Voter vote = v) (stored_votes ctx2 p)) \<le> 1) \<and>
         TallyVotes ctx2 proposalID = int (length (stored_votes ctx2 proposalID)) \<and>
         TallyVotes ctx2 proposalID =
           TallyVotes (DeleteVote ctx2 proposalID voter) proposalID + 1 \<and>
         TallyVotes ctx2 proposalID =
           TallyVotes ctx proposalID +
             (if fmlookup (voteStore (MultiStore ctx)) (proposalID, voter) = None then 1 else 0)"
proof -
  let ?vote = "\<lparr>ProposalID = proposalID, Voter = voter\<rparr>"
  have s1: "MultiStore ctx1 = (MultiStore ctx)
      \<lparr>voteStore := fmupd (proposalID, voter) ?vote (voteStore (MultiStore ctx))\<rparr>"
    by (rule AddVote_success [OF assms(2)])
  have s2: "MultiStore ctx2 = (MultiStore ctx1)
      \<lparr>voteStore := fmupd (proposalID, voter) ?vote (voteStore (MultiStore ctx1))\<rparr>"
    by (rule AddVote_success [OF assms(3)])
  have same: "MultiStore ctx2 = MultiStore ctx1"
    by (simp add: s2 s1)
  have wf2: "wf_store (MultiStore ctx2)"
    using assms wf_store_AddVote by blast
  have look: "fmlookup (voteStore (MultiStore ctx2)) (proposalID, voter) = Some ?vote"
    by (simp add: s2)
  have one: "length (filter (\<lambda>vote. Voter vote = voter) (stored_votes ctx2 proposalID)) = 1"
    using stored_votes_distinct [OF wf2] stored_votes_member [OF wf2 look]
    by (rule count_distinct_member)
  have tally: "TallyVotes ctx2 proposalID = TallyVotes ctx1 proposalID"
    by (simp add: TallyVotes_length stored_votes_def same)
  have most: "length (filter (\<lambda>vote. Voter vote = v) (stored_votes ctx2 p)) \<le> 1" for p v
    using stored_votes_distinct [OF wf2, of p] by (rule count_distinct_le)
  have len: "TallyVotes ctx2 proposalID = int (length (stored_votes ctx2 proposalID))"
    by (rule TallyVotes_length)
  have del: "TallyVotes ctx2 proposalID =
      TallyVotes (DeleteVote ctx2 proposalID voter) proposalID + 1"
    using wf2 look by (rule TallyVotes_DeleteVote)
  have "TallyVotes ctx1 proposalID =
      TallyVotes ctx proposalID +
        (if fmlookup (voteStore (MultiStore ctx)) (proposalID, voter) = None then 1 else 0)"
    using assms(1,2) by (rule TallyVotes_AddVote)
  with tally have before: "TallyVotes ctx2 proposalID =
      TallyVotes ctx proposalID +
        (if fmlookup (voteStore (MultiStore ctx)) (proposalID, voter) = None then 1 else 0)"
    by simp
  from look one same tally most len del before show ?thesis by blast
qed

theorem AddVote_twice_one_record_witness:
  "wf_store (MultiStore ctx_pending) \<and>
   fst (AddVote k_fussy ctx_pending 1 addrA) = None \<and>
   fst (AddVote k_fussy (snd (AddVote k_fussy ctx_pending 1 addrA)) 1 addrA) = None \<and>
   length (filter (\<lambda>vote. Voter vote = addrA)
     (stored_votes (snd (AddVote k_fussy (snd (AddVote k_fussy ctx_pending 1 addrA)) 1 addrA)) 1)) = 1 \<and>
   TallyVotes (snd (AddVote k_fussy (snd (AddVote k_fussy ctx_pending 1 addrA)) 1 addrA)) 1 =
     TallyVotes (snd (AddVote k_fussy ctx_pending 1 addrA)) 1 \<and>
   TallyVotes ctx_pending 1 = 0 \<and>
   TallyVotes (snd (AddVote k_fussy (snd (AddVote k_fussy ctx_pending 1 addrA)) 1 addrA)) 1 = 1 \<and>
   TallyVotes (DeleteVote
     (snd (AddVote k_fussy (snd (AddVote k_fussy ctx_pending 1 addrA)) 1 addrA)) 1 addrA) 1 = 0"
proof -
  let ?c1 = "snd (AddVote k_fussy ctx_pending 1 addrA)"
  let ?c2 = "snd (AddVote k_fussy ?c1 1 addrA)"
  have m: "HasMember com1 addrA"
    by (simp add: HasMember_def com1_def)
  have v1: "AddVote k_fussy ctx_pending 1 addrA =
      (None, EmitEvent (SetVote ctx_pending \<lparr>ProposalID = 1, Voter = addrA\<rparr>)
         (NewEvent EventTypeProposalVote
            [(AttributeKeyCommitteeID, Text (fmt_d (Committee.ID com1))),
             (AttributeKeyProposalID, Text (fmt_d (Proposal.ID proposal1)))]))"
    by (simp add: AddVote_def GetProposal_def GetCommittee_def HasExpiredBy_def m
        ctx_pending_def ctx0_def store0_def proposal1_def)
  have f1: "fst (AddVote k_fussy ctx_pending 1 addrA) = None"
    by (simp add: v1)
  have f2: "fst (AddVote k_fussy ?c1 1 addrA) = None"
    by (simp add: v1)
      (simp add: AddVote_def GetProposal_def GetCommittee_def HasExpiredBy_def m
        EmitEvent_def SetVote_def ctx_pending_def ctx0_def store0_def proposal1_def)
  have a1: "AddVote k_fussy ctx_pending 1 addrA = (None, ?c1)"
    using f1 by (metis prod.collapse)
  have a2: "AddVote k_fussy ?c1 1 addrA = (None, ?c2)"
    using f2 by (metis prod.collapse)
  have t0: "TallyVotes ctx_pending 1 = 0"
    by (simp add: TallyVotes_length stored_votes_def List.map_filter_simps ctx_pending_def
        ctx0_def store0_def sorted_list_of_fset.rep_eq)
  have n: "fmlookup (voteStore (MultiStore ctx_pending)) (1, addrA) = None"
    by (simp add: ctx_pending_def ctx0_def store0_def)
  note main = AddVote_twice_one_record [OF wf_store_examples(1) a1 a2]
  from main t0 n have t2: "TallyVotes ?c2 1 = 1" by simp
  from main t2 have td: "TallyVotes (DeleteVote ?c2 1 addrA) 1 = 0" by simp
  from main wf_store_examples(1) f1 f2 t0 t2 td
  show ?thesis by blast
qed

subsection \<open>GetProposalResult\<close>

text \<open>
  C5. For a proposal in the store whose committee is in the store, with a threshold \<open>T\<close>
  in \<open>(0, 1]\<close> and \<open>N\<close> members, \<^verbatim>\<open>GetProposalResult\<close> returns whether
  \<open>TallyVotes \<ge> T * N\<close>, a comparison of exact rationals: the decimals are integers scaled
  by \<open>10^18\<close> and nothing is rounded. With \<open>\<lceil>T * N\<rceil>\<close> votes the proposal passes, with one
  vote fewer it does not.
\<close>

theorem GetProposalResult_quorum:
  assumes "GetProposal ctx proposalID = Some pr"
    and "GetCommittee ctx (CommitteeID pr) = Some com"
    and "0 < VoteThreshold com" and "VoteThreshold com \<le> 10 ^ 18"
    and "length (Members com) < 2 ^ 63"
  shows "GetProposalResult k ctx proposalID =
           Return (Inr (dec_value (VoteThreshold com) * of_nat (length (Members com))
                          \<le> of_int (TallyVotes ctx proposalID))) \<and>
         (TallyVotes ctx proposalID =
            \<lceil>dec_value (VoteThreshold com) * of_nat (length (Members com))\<rceil> \<longrightarrow>
          GetProposalResult k ctx proposalID = Return (Inr True)) \<and>
         (TallyVotes ctx proposalID =
            \<lceil>dec_value (VoteThreshold com) * of_nat (length (Members com))\<rceil> - 1 \<longrightarrow>
          GetProposalResult k ctx proposalID = Return (Inr False))"
proof -
  let ?q = "dec_value (VoteThreshold com) * of_nat (length (Members com))"
  have res: "GetProposalResult k ctx proposalID =
      Return (Inr (?q \<le> of_int (TallyVotes ctx proposalID)))"
    using assms(1,2) MulInt64_committee [OF assms(3,4,5)]
    by (simp add: GetProposalResult_def Let_def GTE_NewDec)
  have up: "?q \<le> of_int \<lceil>?q\<rceil>" by (rule le_of_int_ceiling)
  have down: "\<not> ?q \<le> of_int (\<lceil>?q\<rceil> - 1)"
    by (simp add: not_le) linarith
  from res up down show ?thesis by simp
qed

theorem GetProposalResult_quorum_witness:
  "GetProposal ctx_voted 1 = Some proposal1 \<and>
   GetCommittee ctx_voted (CommitteeID proposal1) = Some com1 \<and>
   0 < VoteThreshold com1 \<and> VoteThreshold com1 \<le> 10 ^ 18 \<and> length (Members com1) < 2 ^ 63 \<and>
   TallyVotes ctx_voted 1 = \<lceil>dec_value (VoteThreshold com1) * of_nat (length (Members com1))\<rceil> \<and>
   GetProposalResult k_fussy ctx_voted 1 = Return (Inr True) \<and>
   GetProposal ctx_one_vote 1 = Some proposal1 \<and>
   GetCommittee ctx_one_vote (CommitteeID proposal1) = Some com1 \<and>
   TallyVotes ctx_one_vote 1 =
     \<lceil>dec_value (VoteThreshold com1) * of_nat (length (Members com1))\<rceil> - 1 \<and>
   GetProposalResult k_fussy ctx_one_vote 1 = Return (Inr False)"
proof -
  have p: "GetProposal ctx_voted 1 = Some proposal1" "GetProposal ctx_one_vote 1 = Some proposal1"
    by (simp_all add: GetProposal_def ctx_voted_def ctx_one_vote_def ctx0_def)
  have c: "GetCommittee ctx_voted (CommitteeID proposal1) = Some com1"
    "GetCommittee ctx_one_vote (CommitteeID proposal1) = Some com1"
    by (simp_all add: GetCommittee_def ctx_voted_def ctx_one_vote_def ctx0_def store0_def
        proposal1_def)
  have t: "0 < VoteThreshold com1" "VoteThreshold com1 \<le> 10 ^ 18" "length (Members com1) < 2 ^ 63"
    by (simp_all add: com1_def)
  have "\<lceil>(3::rat) / 2\<rceil> = 2"
    by (rule ceiling_unique) simp_all
  then have q: "\<lceil>dec_value (VoteThreshold com1) * of_nat (length (Members com1))\<rceil> = 2"
    by (simp add: com1_def dec_value_def Precision_def)
  have n2: "TallyVotes ctx_voted 1 =
      \<lceil>dec_value (VoteThreshold com1) * of_nat (length (Members com1))\<rceil>"
    by (simp add: q TallyVotes_length stored_votes_ctx_voted)
  have n1: "TallyVotes ctx_one_vote 1 =
      \<lceil>dec_value (VoteThreshold com1) * of_nat (length (Members com1))\<rceil> - 1"
    by (simp add: q TallyVotes_length stored_votes_ctx_one_vote)
  from GetProposalResult_quorum [OF p(1) c(1) t, of k_fussy] n2
  have r2: "GetProposalResult k_fussy ctx_voted 1 = Return (Inr True)" by blast
  from GetProposalResult_quorum [OF p(2) c(2) t, of k_fussy] n1
  have r1: "GetProposalResult k_fussy ctx_one_vote 1 = Return (Inr False)" by blast
  from p c t n2 n1 r2 r1 show ?thesis by blast
qed

subsection \<open>CloseExpiredProposals\<close>

text \<open>
  C7. \<^verbatim>\<open>CloseExpiredProposals\<close> removes from the store exactly the proposals whose
  deadline is at or before the block time, and exactly the votes of those proposals;
  every other proposal and vote, the committees and the id counter stay as they were.
  It emits one close event per removed proposal, and the iteration hands every stored
  proposal to the callback exactly once, in key order, whatever the callback deletes.
\<close>

theorem CloseExpiredProposals_sweep:
  assumes "wf_store (MultiStore ctx)"
  shows "MultiStore (CloseExpiredProposals ctx) =
      (MultiStore ctx)
        \<lparr>proposalStore := fmfilter (\<lambda>key. \<not> expired_at ctx key) (proposalStore (MultiStore ctx)),
         voteStore := fmfilter (\<lambda>key. \<not> expired_at ctx (fst key)) (voteStore (MultiStore ctx))\<rparr> \<and>
    (\<forall>proposalID. GetProposal (CloseExpiredProposals ctx) proposalID =
        (if expired_at ctx proposalID then None else GetProposal ctx proposalID)) \<and>
    (\<forall>proposalID voter.
        fmlookup (voteStore (MultiStore (CloseExpiredProposals ctx))) (proposalID, voter) =
        (if expired_at ctx proposalID then None
         else fmlookup (voteStore (MultiStore ctx)) (proposalID, voter))) \<and>
    (\<forall>proposalID. stored_votes (CloseExpiredProposals ctx) proposalID =
        (if expired_at ctx proposalID then [] else stored_votes ctx proposalID)) \<and>
    EventManager (CloseExpiredProposals ctx) = EventManager ctx @
       map close_event (filter (\<lambda>p. HasExpiredBy p (BlockTime ctx)) (stored_proposals ctx)) \<and>
    IterateProposals ctx (logging (close_if_expired ctx)) (ctx, []) =
      (CloseExpiredProposals ctx, sorted_list_of_fset (fmdom (proposalStore (MultiStore ctx))))"
proof -
  note fold = CloseExpiredProposals_fold [OF assms]
  have store: "MultiStore (CloseExpiredProposals ctx) =
      (MultiStore ctx)
        \<lparr>proposalStore := fmfilter (\<lambda>key. \<not> expired_at ctx key) (proposalStore (MultiStore ctx)),
         voteStore := fmfilter (\<lambda>key. \<not> expired_at ctx (fst key)) (voteStore (MultiStore ctx))\<rparr>"
    by (simp add: fold cong del: fmfilter_cong)
  have props: "GetProposal (CloseExpiredProposals ctx) proposalID =
        (if expired_at ctx proposalID then None else GetProposal ctx proposalID)" for proposalID
    by (simp add: GetProposal_def store)
  have look: "fmlookup (voteStore (MultiStore (CloseExpiredProposals ctx))) (proposalID, voter) =
        (if expired_at ctx proposalID then None
         else fmlookup (voteStore (MultiStore ctx)) (proposalID, voter))" for proposalID voter
    by (simp add: store)
  have sv: "stored_votes (CloseExpiredProposals ctx) proposalID =
        (if expired_at ctx proposalID then [] else stored_votes ctx proposalID)" for proposalID
    using stored_votes_fmfilter [OF store, of proposalID] by simp
  have ev: "EventManager (CloseExpiredProposals ctx) = EventManager ctx @
       map close_event (filter (\<lambda>p. HasExpiredBy p (BlockTime ctx)) (stored_proposals ctx))"
    by (simp add: fold)
  have "\<forall>x s. fst (close_if_expired ctx x s) = False"
    by (simp add: close_if_expired_def)
  then have log: "IterateProposals ctx (logging (close_if_expired ctx)) (ctx, []) =
      (CloseExpiredProposals ctx, sorted_list_of_fset (fmdom (proposalStore (MultiStore ctx))))"
    by (simp add: IterateProposals_def CloseExpiredProposals_def iterate_logging
        stored_proposals_ids [OF assms])
  from store props look sv ev log show ?thesis by blast
qed

theorem CloseExpiredProposals_sweep_witness:
  "wf_store (MultiStore ctx_sweep) \<and>
   Deadline proposal1 < BlockTime ctx_sweep \<and> Deadline proposal2 = BlockTime ctx_sweep \<and>
   BlockTime ctx_sweep < Deadline proposal3 \<and>
   GetProposal ctx_sweep 1 = Some proposal1 \<and> GetProposal ctx_sweep 2 = Some proposal2 \<and>
   GetProposal ctx_sweep 3 = Some proposal3 \<and>
   GetProposal (CloseExpiredProposals ctx_sweep) 1 = None \<and>
   GetProposal (CloseExpiredProposals ctx_sweep) 2 = None \<and>
   GetProposal (CloseExpiredProposals ctx_sweep) 3 = Some proposal3 \<and>
   stored_votes (CloseExpiredProposals ctx_sweep) 1 = [] \<and>
   stored_votes (CloseExpiredProposals ctx_sweep) 2 = [] \<and>
   stored_votes (CloseExpiredProposals ctx_sweep) 3 = [\<lparr>ProposalID = 3, Voter = addrC\<rparr>] \<and>
   snd (IterateProposals ctx_sweep (logging (close_if_expired ctx_sweep)) (ctx_sweep, [])) = [1, 2, 3]"
proof -
  have d: "Deadline proposal1 < BlockTime ctx_sweep" "Deadline proposal2 = BlockTime ctx_sweep"
    "BlockTime ctx_sweep < Deadline proposal3"
    by (simp_all add: proposal1_def proposal2_def proposal3_def ctx_sweep_def)
  have p: "GetProposal ctx_sweep 1 = Some proposal1" "GetProposal ctx_sweep 2 = Some proposal2"
    "GetProposal ctx_sweep 3 = Some proposal3"
    by (simp_all add: GetProposal_def ctx_sweep_def)
  have e: "expired_at ctx_sweep 1" "expired_at ctx_sweep 2" "\<not> expired_at ctx_sweep 3"
    using d by (simp_all add: expired_at_def p HasExpiredBy_def)
  have keys: "sorted_list_of_fset (fmdom (proposalStore (MultiStore ctx_sweep))) = [1, 2, 3]"
    unfolding ctx_sweep_def store0_def by code_simp
  have v3: "stored_votes ctx_sweep 3 = [\<lparr>ProposalID = 3, Voter = addrC\<rparr>]"
    unfolding stored_votes_def ctx_sweep_def store0_def voteA_def addrA_def addrB_def addrC_def
    by code_simp
  note main = CloseExpiredProposals_sweep [OF wf_store_examples(4)]
  from main e p have g: "GetProposal (CloseExpiredProposals ctx_sweep) 1 = None"
    "GetProposal (CloseExpiredProposals ctx_sweep) 2 = None"
    "GetProposal (CloseExpiredProposals ctx_sweep) 3 = Some proposal3"
    by simp_all
  from main e v3 have s: "stored_votes (CloseExpiredProposals ctx_sweep) 1 = []"
    "stored_votes (CloseExpiredProposals ctx_sweep) 2 = []"
    "stored_votes (CloseExpiredProposals ctx_sweep) 3 = [\<lparr>ProposalID = 3, Voter = addrC\<rparr>]"
    by simp_all
  from main keys
  have l: "snd (IterateProposals ctx_sweep (logging (close_if_expired ctx_sweep)) (ctx_sweep, [])) =
      [1, 2, 3]"
    by simp
  from wf_store_examples(4) d p g s l show ?thesis by blast
qed

subsection \<open>InitGenesis of the cdp module\<close>

text \<open>
  C9. For every genesis state, \<^verbatim>\<open>InitGenesis\<close> panics when the module account of the
  cdp module, of the liquidator or of the savings rate is missing; it has no error to
  return. When the genesis state validates, the panic names the first account that is
  missing.
\<close>

theorem InitGenesis_missing_module_account:
  "(GetModuleAccount sk (ModuleName ext) = None \<or>
    GetModuleAccount sk (LiquidatorMacc ext) = None \<or>
    GetModuleAccount sk (SavingsRateMacc ext) = None \<longrightarrow>
      (\<exists>msg. InitGenesis ext pk sk gs = Panic (PanicValue msg))) \<and>
   (Validate ext gs = None \<and> GetModuleAccount sk (ModuleName ext) = None \<longrightarrow>
      InitGenesis ext pk sk gs =
        Panic (PanicValue (ModuleName ext @ '' module account has not been set''))) \<and>
   (Validate ext gs = None \<and> GetModuleAccount sk (ModuleName ext) \<noteq> None \<and>
    GetModuleAccount sk (LiquidatorMacc ext) = None \<longrightarrow>
      InitGenesis ext pk sk gs =
        Panic (PanicValue (LiquidatorMacc ext @ '' module account has not been set''))) \<and>
   (Validate ext gs = None \<and> GetModuleAccount sk (ModuleName ext) \<noteq> None \<and>
    GetModuleAccount sk (LiquidatorMacc ext) \<noteq> None \<and>
    GetModuleAccount sk (SavingsRateMacc ext) = None \<longrightarrow>
      InitGenesis ext pk sk gs =
        Panic (PanicValue (SavingsRateMacc ext @ '' module account has not been set'')))"
  by (cases "Validate ext gs") (auto simp add: InitGenesis_def)

theorem InitGenesis_missing_module_account_witness:
  "GetModuleAccount sk_no_liquidator (ModuleName ext0) \<noteq> None \<and>
   GetModuleAccount sk_no_liquidator (LiquidatorMacc ext0) = None \<and>
   Validate ext0 gs0 = None \<and>
   InitGenesis ext0 pk0 sk_no_liquidator gs0 =
     Panic (PanicValue ''liquidator module account has not been set'') \<and>
   InitGenesis ext0 pk0 sk_all gs0 =
     Return [SetParams (Params gs0), SetNextCdpID 1, SetDebtDenom ''debt'', SetGovDenom ''ukava'']"
proof -
  have h: "Validate ext0 gs0 = None \<and> GetModuleAccount sk_no_liquidator (ModuleName ext0) \<noteq> None \<and>
      GetModuleAccount sk_no_liquidator (LiquidatorMacc ext0) = None"
    by (simp add: ext0_def sk_no_liquidator_def)
  from InitGenesis_missing_module_account [of sk_no_liquidator ext0 pk0 gs0] h
  have "InitGenesis ext0 pk0 sk_no_liquidator gs0 =
      Panic (PanicValue (LiquidatorMacc ext0 @ '' module account has not been set''))"
    by blast
  then have r: "InitGenesis ext0 pk0 sk_no_liquidator gs0 =
      Panic (PanicValue ''liquidator module account has not been set'')"
    by (simp add: ext0_def)
  have ok: "InitGenesis ext0 pk0 sk_all gs0 =
     Return [SetParams (Params gs0), SetNextCdpID 1, SetDebtDenom ''debt'', SetGovDenom ''ukava'']"
    by (simp add: InitGenesis_def ext0_def sk_all_def pk0_def gs0_def)
  from h r ok show ?thesis by simp
qed

end
